theory Spec2Isabelle
  imports
    Complex_Main
    "HOL-Library.Multiset"
    "HOL-Library.Char_ord"
    "HOL-Library.List_Lexorder"
    "HOL-Library.Product_Lexorder"
begin

section \<open>Errors and Python sequence access\<close>

text \<open>
  Every exception the modelled functions can raise is a value of \<open>error\<close>.
  \<open>CubeError\<close> is the package's own exception class; it carries the numeric code and
  the message. The others are the built-in exceptions of Python and numpy.
\<close>

datatype error =
    CubeError nat string
  | ValueError string
  | IndexError
  | TypeError
  | AttributeError
  | UnboundLocalError
  | OverflowError
  | UnitConversionError
  | InconsistentAxisTypesError

text \<open>The numeric code an exception carries: only \<open>CubeError\<close> has the field
  \<open>value\<close>.\<close>

fun error_code :: "error \<Rightarrow> nat option" where
  "error_code (CubeError k _) = Some k"
| "error_code _ = None"

text \<open>The table \<open>CubeError.errors\<close> of descriptions, keyed by code.\<close>

definition CubeError_errors :: "(nat \<times> string) list" where
  "CubeError_errors =
     [(0, ''Unspecified error''),
      (1, ''Time dimension not present''),
      (2, ''Spectral dimension not present''),
      (3, ''Insufficient spatial dimensions''),
      (4, ''Dimension error''),
      (5, ''Slicing unit error''),
      (6, ''Unaligned array error'')]"

text \<open>
  \<open>xs[i]\<close> on a Python list, tuple or one-dimensional numpy array: a negative index
  counts from the end, an index out of range raises IndexError.
\<close>

definition py_index :: "'a list \<Rightarrow> int \<Rightarrow> error + 'a" where
  "py_index xs i =
     (if 0 \<le> i \<and> i < int (length xs) then Inr (xs ! nat i)
      else if i < 0 \<and> - int (length xs) \<le> i then Inr (xs ! nat (int (length xs) + i))
      else Inl IndexError)"

text \<open>A slice object whose three fields are integers or None.\<close>

record pslice =
  start :: "int option"
  stop :: "int option"
  step :: "int option"

definition mk_slice :: "int option \<Rightarrow> int option \<Rightarrow> int option \<Rightarrow> pslice" where
  "mk_slice a b c = \<lparr>start = a, stop = b, step = c\<rparr>"

section \<open>Indexing a sequence of cubes as one cube\<close>

text \<open>\<open>np.cumsum\<close> of a one-dimensional integer array.\<close>

fun cumsum_from :: "int \<Rightarrow> int list \<Rightarrow> int list" where
  "cumsum_from acc [] = []"
| "cumsum_from acc (x # xs) = (acc + x) # cumsum_from (acc + x) xs"

definition cumsum :: "int list \<Rightarrow> int list" where
  "cumsum xs = cumsum_from 0 xs"

text \<open>\<open>np.where(cumul_cube_lengths <= cube_like_index)[0]\<close>: the positions, in
  increasing order, whose entry is at most the index.\<close>

definition np_where_le :: "int list \<Rightarrow> int \<Rightarrow> nat list" where
  "np_where_le cumul i = filter (\<lambda>k. cumul ! k \<le> i) [0..<length cumul]"

text \<open>
  \<open>_convert_cube_like_index_to_sequence_indices\<close>. The result is the pair
  \<open>(sequence_index, cube_index)\<close>.
\<close>

definition convert_cube_like_index_to_sequence_indices ::
    "int \<Rightarrow> int list \<Rightarrow> error + (int \<times> int)" where
  "convert_cube_like_index_to_sequence_indices cube_like_index cumul_cube_lengths =
     (case py_index cumul_cube_lengths 0 of
        Inl e \<Rightarrow> Inl e
      | Inr first_len \<Rightarrow>
          if cube_like_index < first_len then Inr (0, cube_like_index)
          else
            (case py_index (np_where_le cumul_cube_lengths cube_like_index) (- 1) of
               Inl e \<Rightarrow> Inl e
             | Inr sequence_index \<Rightarrow>
                 (case py_index cumul_cube_lengths (- 1) of
                    Inl e \<Rightarrow> Inl e
                  | Inr last_len \<Rightarrow>
                      (case (if cube_like_index > last_len - 1 then Inr (first_len - 1)
                             else (case py_index cumul_cube_lengths (int sequence_index) of
                                     Inl e \<Rightarrow> Inl e
                                   | Inr c \<Rightarrow> Inr (cube_like_index - c))) of
                         Inl e \<Rightarrow> Inl e
                       | Inr cube_index \<Rightarrow>
                           Inr (if int sequence_index < int (length cumul_cube_lengths) - 1
                                then int sequence_index + 1 else int sequence_index,
                                cube_index)))))"

text \<open>
  The second component of the result of the slice conversion: one slice when the
  request stays inside one cube, a list of slices when it crosses cubes.
\<close>

datatype cube_slices = OneSlice pslice | SliceList "pslice list"

text \<open>
  \<open>_convert_cube_like_slice_to_sequence_slices\<close>. The result is the pair
  \<open>(sequence_slice, cube_slice)\<close>. The test \<open>int(cube_stop_index) is not 0\<close> is the
  test that the stop index is not zero.
\<close>

definition convert_cube_like_slice_to_sequence_slices ::
    "pslice \<Rightarrow> int list \<Rightarrow> error + (pslice \<times> cube_slices)" where
  "convert_cube_like_slice_to_sequence_slices cube_like_slice cumul_cube_lengths =
     (case convert_cube_like_index_to_sequence_indices
             (case start cube_like_slice of Some s \<Rightarrow> s | None \<Rightarrow> 0) cumul_cube_lengths of
        Inl e \<Rightarrow> Inl e
      | Inr (sequence_start_index, cube_start_index) \<Rightarrow>
          (case (case stop cube_like_slice of
                   Some t \<Rightarrow> convert_cube_like_index_to_sequence_indices t cumul_cube_lengths
                 | None \<Rightarrow>
                     (case py_index cumul_cube_lengths (- 1) of
                        Inl e \<Rightarrow> Inl e
                      | Inr l \<Rightarrow>
                          convert_cube_like_index_to_sequence_indices l cumul_cube_lengths)) of
             Inl e \<Rightarrow> Inl e
           | Inr (sequence_stop_index0, cube_stop_index0) \<Rightarrow>
               (case (case stop cube_like_slice of
                        None \<Rightarrow> Inr (sequence_stop_index0, cube_stop_index0)
                      | Some t \<Rightarrow>
                          (case py_index cumul_cube_lengths (- 1) of
                             Inl e \<Rightarrow> Inl e
                           | Inr l \<Rightarrow>
                               if \<not> t < l then Inr (sequence_stop_index0 + 1, 0)
                               else Inr (sequence_stop_index0, cube_stop_index0))) of
                  Inl e \<Rightarrow> Inl e
                | Inr (sequence_stop_index, cube_stop_index) \<Rightarrow>
                    if sequence_start_index \<noteq> sequence_stop_index then
                      (case py_index cumul_cube_lengths sequence_start_index of
                         Inl e \<Rightarrow> Inl e
                       | Inr first_end \<Rightarrow>
                           if cube_stop_index \<noteq> 0 then
                             Inr (mk_slice (Some sequence_start_index)
                                    (Some (sequence_stop_index + 1)) (step cube_like_slice),
                                  SliceList
                                    [mk_slice (Some cube_start_index) (Some first_end)
                                       (step cube_like_slice),
                                     mk_slice (Some 0) (Some cube_stop_index)
                                       (step cube_like_slice)])
                           else
                             Inr (mk_slice (Some sequence_start_index)
                                    (Some sequence_stop_index) (step cube_like_slice),
                                  SliceList
                                    [mk_slice (Some cube_start_index) (Some first_end)
                                       (step cube_like_slice)]))
                    else
                      Inr (mk_slice (Some sequence_start_index)
                             (Some (sequence_stop_index + 1)) (step cube_like_slice),
                           OneSlice (mk_slice (Some cube_start_index) (Some cube_stop_index)
                                       (step cube_like_slice))))))"

section \<open>Canonical axis order\<close>

text \<open>
  \<open>list.index\<close>: the first position that holds the value; ValueError when no position
  does.
\<close>

fun list_index :: "'a list \<Rightarrow> 'a \<Rightarrow> error + nat" where
  "list_index [] x = Inl (ValueError ''value is not in list'')"
| "list_index (y # ys) x =
     (if y = x then Inr 0
      else (case list_index ys x of Inl e \<Rightarrow> Inl e | Inr k \<Rightarrow> Inr (Suc k)))"

text \<open>Running a list of computations in order; the first error stops the run.\<close>

fun collect :: "(error + 'a) list \<Rightarrow> error + 'a list" where
  "collect [] = Inr []"
| "collect (r # rs) =
     (case r of
        Inl e \<Rightarrow> Inl e
      | Inr x \<Rightarrow> (case collect rs of Inl e \<Rightarrow> Inl e | Inr xs \<Rightarrow> Inr (x # xs)))"

text \<open>
  One entry of the list \<open>order\<close> built by \<open>select_order\<close>: the pair of the priority of
  the axis type and the axis type.
\<close>

definition order_entry :: "string list \<Rightarrow> string \<Rightarrow> error + (nat \<times> string)" where
  "order_entry axtypes t =
     (if t \<in> set [''TIME'', ''UTC''] then Inr (0, t)
      else if t = ''WAVE'' then Inr (1, t)
      else if t = ''HPLT-TAN'' then Inr (2, t)
      else (case list_index axtypes t of Inl e \<Rightarrow> Inl e | Inr k \<Rightarrow> Inr (k + 3, t)))"

text \<open>
  \<open>select_order\<close>. \<open>order.sort()\<close> sorts the pairs by priority, then by the string;
  pairs that compare equal are equal, so the sorted list is the one \<open>sort\<close> returns.
\<close>

definition select_order :: "string list \<Rightarrow> error + nat list" where
  "select_order axtypes =
     (case collect (map (order_entry axtypes) axtypes) of
        Inl e \<Rightarrow> Inl e
      | Inr order \<Rightarrow> collect (map (\<lambda>(_, s). list_index axtypes s) (sort order)))"

text \<open>
  Two functions used to state and prove facts about \<open>select_order\<close>: the first
  position of a value as a number, and the priority of an axis type as a number.
\<close>

definition first_pos :: "'a list \<Rightarrow> 'a \<Rightarrow> nat" where
  "first_pos xs x = length (takeWhile (\<lambda>y. y \<noteq> x) xs)"

definition priority :: "string list \<Rightarrow> string \<Rightarrow> nat" where
  "priority axtypes t =
     (if t \<in> set [''TIME'', ''UTC''] then 0
      else if t = ''WAVE'' then 1
      else if t = ''HPLT-TAN'' then 2
      else first_pos axtypes t + 3)"

section \<open>Arrays\<close>

text \<open>
  A numpy array: its shape and its elements in row-major order. \<open>ndim\<close> is the number
  of axes.
\<close>

record 'a ndarray =
  shape :: "nat list"
  flat :: "'a list"

definition ndim :: "'a ndarray \<Rightarrow> nat" where
  "ndim a = length (shape a)"

text \<open>
  \<open>range(start, stop, step)\<close> of Python 2, a list. A step of zero raises ValueError.
\<close>

definition py_range :: "int \<Rightarrow> int \<Rightarrow> int \<Rightarrow> error + int list" where
  "py_range a b s =
     (if s = 0 then Inl (ValueError ''range() step argument must not be zero'')
      else if 0 < s then Inr (map (\<lambda>k. a + int k * s) [0..<nat ((b - a + s - 1) div s)])
      else Inr (map (\<lambda>k. a + int k * s) [0..<nat ((a - b - s - 1) div (- s))]))"

text \<open>
  An index into an axis of the given extent, as \<open>take\<close> reads it: a negative index counts
  from the end, an index outside the axis raises IndexError.
\<close>

definition axis_position :: "nat \<Rightarrow> int \<Rightarrow> error + nat" where
  "axis_position extent i =
     (if 0 \<le> i \<and> i < int extent then Inr (nat i)
      else if i < 0 \<and> - int extent \<le> i then Inr (nat (int extent + i))
      else Inl IndexError)"

text \<open>
  \<open>array.take(indices, axis=axis)\<close>: the array whose extent along \<open>axis\<close> is the number
  of indices and whose \<open>k\<close>-th hyperplane along that axis is the hyperplane of the input
  at the \<open>k\<close>-th index. With \<open>outer\<close> the product of the extents before the axis and
  \<open>inner\<close> the product of those after it, the hyperplane \<open>i\<close> of the outer block \<open>o\<close>
  is the run of \<open>inner\<close> elements that starts at \<open>(o * extent + i) * inner\<close>.
\<close>

definition np_take :: "'a ndarray \<Rightarrow> int list \<Rightarrow> nat \<Rightarrow> error + 'a ndarray" where
  "np_take a indices axis =
     (if length (shape a) \<le> axis then Inl IndexError
      else
        (let extent = shape a ! axis;
             outer = prod_list (take axis (shape a));
             inner = prod_list (drop (Suc axis) (shape a))
         in case collect (map (axis_position extent) indices) of
              Inl e \<Rightarrow> Inl e
            | Inr ps \<Rightarrow>
                Inr \<lparr>shape = (shape a)[axis := length ps],
                     flat = concat (map (\<lambda>o'. concat (map (\<lambda>i.
                              take inner (drop ((o' * extent + i) * inner) (flat a))) ps))
                              [0..<outer])\<rparr>))"

text \<open>The multi-index of a row-major position, and the row-major position of a
  multi-index.\<close>

fun unravel :: "nat list \<Rightarrow> nat \<Rightarrow> nat list" where
  "unravel [] k = []"
| "unravel (d # ds) k = (k div prod_list ds) # unravel ds (k mod prod_list ds)"

fun ravel :: "nat list \<Rightarrow> nat list \<Rightarrow> nat" where
  "ravel (d # ds) (i # is) = i * prod_list ds + ravel ds is"
| "ravel _ _ = 0"

text \<open>
  \<open>array.transpose(axes)\<close>: axis \<open>d\<close> of the result is axis \<open>axes[d]\<close> of the input.
  numpy raises ValueError unless \<open>axes\<close> is a permutation of the axes of the array.
\<close>

definition np_transpose :: "'a ndarray \<Rightarrow> nat list \<Rightarrow> error + 'a ndarray" where
  "np_transpose a axes =
     (if length axes \<noteq> length (shape a) \<or> \<not> distinct axes
         \<or> \<not> list_all (\<lambda>d. d < length (shape a)) axes
      then Inl (ValueError ''axes do not match array'')
      else
        (let new_shape = map (\<lambda>d. shape a ! d) axes
         in Inr \<lparr>shape = new_shape,
                 flat = map (\<lambda>k. flat a !
                              ravel (shape a)
                                (map (\<lambda>d. unravel new_shape k ! first_pos axes d)
                                   [0..<length axes]))
                          [0..<prod_list new_shape]\<rparr>))"

section \<open>Units, coordinate systems and cubes\<close>

text \<open>
  A physical unit of the unit library: the physical dimension it measures and its size
  relative to the reference unit of that dimension. Two units are equal when both agree,
  and one converts to the other when the dimensions agree.
\<close>

datatype aunit = Unit (dimension: string) (scale: rat)

definition deg :: aunit where "deg = Unit ''angle'' 3600"
definition arcsec :: aunit where "arcsec = Unit ''angle'' 1"
definition pix :: aunit where "pix = Unit ''pixel'' 1"

definition convertible :: "aunit \<Rightarrow> aunit \<Rightarrow> bool" where
  "convertible u v = (dimension u = dimension v)"

text \<open>\<open>(value * unit).to(cunit)\<close>, the magnitude in the target unit.\<close>

definition to_unit :: "rat \<Rightarrow> aunit \<Rightarrow> aunit \<Rightarrow> error + rat" where
  "to_unit v u c =
     (if convertible u c then Inr (v * scale u / scale c) else Inl UnitConversionError)"

text \<open>
  The coordinate system: the per-axis arrays of the wrapped descriptor (in WCS axis
  order) and the two flags of the class \<open>WCS\<close>. The descriptor keeps one entry per axis
  in each array, so its axis count \<open>naxis\<close>, here \<open>naxis_of\<close>, is the length of \<open>ctype\<close>.
\<close>

record wcs =
  ctype :: "string list"
  crpix :: "rat list"
  crval :: "rat list"
  cdelt :: "rat list"
  cunit :: "aunit list"
  oriented :: bool
  was_augmented :: bool

definition naxis_of :: "wcs \<Rightarrow> nat" where
  "naxis_of w = length (ctype w)"

text \<open>
  The cube: data, coordinate system, optional mask and uncertainty array, metadata and
  unit. \<open>cube._new_instance(data=..., wcs=..., **kwargs)\<close> builds a cube from its
  fields; a keyword that is not passed leaves the field None.
\<close>

record cube =
  data :: "rat ndarray"
  axes_wcs :: wcs
  mask :: "bool ndarray option"
  uncertainty :: "rat ndarray option"
  meta :: "(string \<times> string) list"
  unit :: "aunit option"

section \<open>Reducing one axis\<close>

text \<open>
  \<open>reduce_dim\<close>. The slicing operation of the coordinate-system library,
  \<open>newwcs.slice(wcs_slice_data)\<close>, is the parameter \<open>wcs_slice\<close>. The statements run
  in the order of the source, so the first failure is the one returned.
\<close>

definition reduce_dim ::
    "(wcs \<Rightarrow> pslice list \<Rightarrow> error + wcs) \<Rightarrow> cube \<Rightarrow> nat \<Rightarrow> pslice \<Rightarrow> error + cube" where
  "reduce_dim wcs_slice cube axis keys =
     (case py_index (shape (data cube)) (int axis) of
        Inl e \<Rightarrow> Inl e
      | Inr extent \<Rightarrow>
          (let start0 = (case start keys of Some s \<Rightarrow> s | None \<Rightarrow> 0);
               stop0 = (case stop keys of Some s \<Rightarrow> s | None \<Rightarrow> int extent);
               stop1 = (if stop0 > int extent then int extent else stop0);
               start1 = (if start0 < 0 then 0 else start0);
               step1 = (case step keys of Some s \<Rightarrow> s | None \<Rightarrow> 1)
           in case py_range start1 stop1 step1 of
                Inl e \<Rightarrow> Inl e
              | Inr indices \<Rightarrow>
                  (case np_take (data cube) indices axis of
                     Inl e \<Rightarrow> Inl e
                   | Inr newdata \<Rightarrow>
                       (case wcs_slice (axes_wcs cube)
                               (map (\<lambda>i. mk_slice (Some 0) (Some (int (shape (data cube) ! i))) None)
                                  [0..<axis]
                                @ [mk_slice (Some start1) (Some stop1) None]) of
                          Inl e \<Rightarrow> Inl e
                        | Inr newwcs \<Rightarrow>
                            (case (case uncertainty cube of
                                     None \<Rightarrow> Inr None
                                   | Some errors \<Rightarrow>
                                       (case np_take errors indices axis of
                                          Inl e \<Rightarrow> Inl e
                                        | Inr errors' \<Rightarrow> Inr (Some errors'))) of
                               Inl e \<Rightarrow> Inl e
                             | Inr new_errors \<Rightarrow>
                                 (case (case mask cube of
                                          None \<Rightarrow> Inr None
                                        | Some m \<Rightarrow>
                                            (case np_take m indices axis of
                                               Inl e \<Rightarrow> Inl e
                                             | Inr m' \<Rightarrow> Inr (Some m'))) of
                                    Inl e \<Rightarrow> Inl e
                                  | Inr new_mask \<Rightarrow>
                                      Inr \<lparr>data = newdata, axes_wcs = newwcs,
                                           mask = new_mask, uncertainty = new_errors,
                                           meta = meta cube, unit = unit cube\<rparr>))))))"

section \<open>Index expressions and their classification\<close>

text \<open>
  The argument of \<open>__getitem__\<close>: one component or a tuple of components. A component
  is an int, a slice, or an object of another type (such as None), which is neither and
  cannot be subscripted.
\<close>

datatype comp = CInt int | CSlice pslice | COther

datatype item = Single comp | Tuple "comp list"

datatype kind = KInt | KSlice

fun is_instance :: "comp \<Rightarrow> kind \<Rightarrow> bool" where
  "is_instance (CInt _) KInt = True"
| "is_instance (CSlice _) KSlice = True"
| "is_instance _ _ = False"

fun is_int :: "item \<Rightarrow> bool" where
  "is_int (Single (CInt _)) = True"
| "is_int _ = False"

fun is_slice :: "item \<Rightarrow> bool" where
  "is_slice (Single (CSlice _)) = True"
| "is_slice _ = False"

fun is_tuple :: "item \<Rightarrow> bool" where
  "is_tuple (Tuple _) = True"
| "is_tuple _ = False"

text \<open>
  \<open>iter_isinstance\<close>: the object is a tuple and, for one of the given tuples of types, it
  has the length of that tuple and each item is an instance of the type at its position.
\<close>

fun iter_isinstance :: "item \<Rightarrow> kind list list \<Rightarrow> bool" where
  "iter_isinstance (Single _) type_tuples = False"
| "iter_isinstance (Tuple obj) type_tuples =
     list_ex (\<lambda>types. length obj = length types \<and> list_all2 is_instance obj types)
       type_tuples"

text \<open>\<open>item[k]\<close>: an int, a slice or another single object cannot be subscripted.\<close>

fun item_get :: "item \<Rightarrow> int \<Rightarrow> error + comp" where
  "item_get (Tuple cs) k = py_index cs k"
| "item_get (Single _) k = Inl TypeError"

text \<open>
  The products are built by methods of the cube that are outside this code. The model
  records the call: the method, the cube it is called on, and the arguments in order, each
  one positional (a component of the index, or None) or passed by keyword.
\<close>

datatype arg = Pos "comp option" | Keyword string comp

datatype product =
    Slice_to_map cube "arg list"
  | Slice_to_spectrum cube "arg list"
  | Slice_to_spectrogram cube "arg list"
  | Slice_to_lightcurve cube "arg list"
  | Reduced_cube cube
  | Data_getitem "rat ndarray" item

definition pos_arg :: "item \<Rightarrow> int \<Rightarrow> error + arg" where
  "pos_arg it k = (case item_get it k of Inl e \<Rightarrow> Inl e | Inr c \<Rightarrow> Inr (Pos (Some c)))"

definition kw_arg :: "string \<Rightarrow> item \<Rightarrow> int \<Rightarrow> error + arg" where
  "kw_arg name it k = (case item_get it k of Inl e \<Rightarrow> Inl e | Inr c \<Rightarrow> Inr (Keyword name c))"

text \<open>A call whose arguments are evaluated from left to right.\<close>

definition call :: "(arg list \<Rightarrow> product) \<Rightarrow> (error + arg) list \<Rightarrow> error + product" where
  "call method args = (case collect args of Inl e \<Rightarrow> Inl e | Inr as \<Rightarrow> Inr (method as))"

definition handle_slice_to_spectrum :: "cube \<Rightarrow> item \<Rightarrow> error + product" where
  "handle_slice_to_spectrum cube it =
     (if ndim (data cube) = 3 then
        (case it of
           Single (CInt i) \<Rightarrow> call (Slice_to_spectrum cube) [Inr (Pos (Some (CInt i))), Inr (Pos None)]
         | _ \<Rightarrow>
             if iter_isinstance it [ [KInt, KSlice, KInt] ] then
               call (Slice_to_spectrum cube) [pos_arg it 0, pos_arg it 2]
             else if iter_isinstance it [ [KSlice, KInt, KInt] ] then
               call (Slice_to_spectrum cube) [pos_arg it 1, pos_arg it 2]
             else call (Slice_to_spectrum cube) [pos_arg it 0, Inr (Pos None)])
      else if iter_isinstance it [ [KInt, KSlice, KInt, KInt] ] then
        call (Slice_to_spectrum cube) [pos_arg it 0, pos_arg it 2, pos_arg it 3]
      else if iter_isinstance it [ [KInt, KSlice, KInt, KSlice], [KInt, KSlice, KInt] ] then
        call (Slice_to_spectrum cube) [pos_arg it 0, pos_arg it 2, Inr (Pos None)]
      else if iter_isinstance it [ [KInt, KSlice, KSlice, KInt] ] then
        call (Slice_to_spectrum cube) [pos_arg it 0, Inr (Pos None), pos_arg it 3]
      else Inl UnboundLocalError)"

definition handle_slice_to_lightcurve :: "cube \<Rightarrow> item \<Rightarrow> error + product" where
  "handle_slice_to_lightcurve cube it =
     (if ndim (data cube) = 3 then
        (if iter_isinstance it [ [KSlice, KInt, KInt] ] then
           call (Slice_to_lightcurve cube) [pos_arg it 1, pos_arg it 2]
         else call (Slice_to_lightcurve cube) [pos_arg it 1])
      else if iter_isinstance it [ [KSlice, KInt, KInt, KInt] ] then
        call (Slice_to_lightcurve cube) [pos_arg it 1, pos_arg it 2, pos_arg it 3]
      else if iter_isinstance it [ [KSlice, KInt, KSlice, KInt] ] then
        call (Slice_to_lightcurve cube) [pos_arg it 1, kw_arg ''x_coord'' it 3]
      else call (Slice_to_lightcurve cube) [pos_arg it 1, kw_arg ''y_coord'' it 2])"

definition handle_slice_to_map :: "cube \<Rightarrow> item \<Rightarrow> error + product" where
  "handle_slice_to_map cube it =
     (if ndim (data cube) = 3 then
        (case it of
           Single (CInt i) \<Rightarrow> call (Slice_to_map cube) [Inr (Pos (Some (CInt i)))]
         | _ \<Rightarrow> call (Slice_to_map cube) [pos_arg it 0])
      else call (Slice_to_map cube) [pos_arg it 0, pos_arg it 1])"

text \<open>
  The five classification flags of \<open>getitem_3d\<close>, as functions of the axis types at the
  positions 0 and 1 and of the index.
\<close>

definition slice_to_map_3d :: "string \<Rightarrow> item \<Rightarrow> bool" where
  "slice_to_map_3d axes1 it =
     (axes1 \<noteq> ''WAVE'' \<and>
      (is_int it \<or> iter_isinstance it [ [KInt, KSlice], [KInt, KSlice, KSlice] ]))"

definition slice_to_spectrum_3d :: "string \<Rightarrow> string \<Rightarrow> item \<Rightarrow> bool" where
  "slice_to_spectrum_3d axes0 axes1 it =
     (((is_int it \<or>
        iter_isinstance it [ [KInt, KSlice], [KInt, KSlice, KSlice], [KInt, KSlice, KInt] ])
       \<and> axes1 = ''WAVE'')
      \<or> (axes0 = ''WAVE'' \<and> iter_isinstance it [ [KSlice, KInt, KInt] ]))"

definition slice_to_spectrogram_3d :: "string \<Rightarrow> item \<Rightarrow> bool" where
  "slice_to_spectrogram_3d axes1 it =
     (iter_isinstance it [ [KSlice, KSlice, KInt] ] \<and> axes1 = ''WAVE'')"

definition slice_to_lightcurve_3d :: "string \<Rightarrow> item \<Rightarrow> bool" where
  "slice_to_lightcurve_3d axes1 it =
     (axes1 = ''WAVE'' \<and>
      iter_isinstance it [ [KSlice, KInt, KInt], [KSlice, KInt], [KSlice, KInt, KSlice] ])"

fun stay_as_cube :: "item \<Rightarrow> bool" where
  "stay_as_cube (Single c) = is_slice (Single c)"
| "stay_as_cube (Tuple cs) = (\<not> list_ex (\<lambda>i. is_instance i KInt) cs)"

text \<open>
  The loop of \<open>getitem_3d\<close> over the positions of a tuple: each slice reduces the cube
  along its position, every other component is skipped.
\<close>

fun reduce_slices ::
    "(wcs \<Rightarrow> pslice list \<Rightarrow> error + wcs) \<Rightarrow> cube \<Rightarrow> nat \<Rightarrow> comp list \<Rightarrow> error + cube" where
  "reduce_slices wcs_slice reducedcube i [] = Inr reducedcube"
| "reduce_slices wcs_slice reducedcube i (CSlice s # rest) =
     (case reduce_dim wcs_slice reducedcube i s of
        Inl e \<Rightarrow> Inl e
      | Inr c \<Rightarrow> reduce_slices wcs_slice c (Suc i) rest)"
| "reduce_slices wcs_slice reducedcube i (_ # rest) =
     reduce_slices wcs_slice reducedcube (Suc i) rest"

text \<open>
  \<open>getitem_3d\<close>. \<open>axes[1]\<close> is read first and raises IndexError on a coordinate system
  with fewer than two axes; after it \<open>axes[0]\<close> cannot fail.
\<close>

definition getitem_3d ::
    "(wcs \<Rightarrow> pslice list \<Rightarrow> error + wcs) \<Rightarrow> cube \<Rightarrow> item \<Rightarrow> error + product" where
  "getitem_3d wcs_slice cube it =
     (case py_index (ctype (axes_wcs cube)) 1 of
        Inl e \<Rightarrow> Inl e
      | Inr axes1 \<Rightarrow>
     (case py_index (ctype (axes_wcs cube)) 0 of
        Inl e \<Rightarrow> Inl e
      | Inr axes0 \<Rightarrow>
     (case reduce_dim wcs_slice cube 0 (mk_slice None None None) of
        Inl e \<Rightarrow> Inl e
      | Inr copied \<Rightarrow>
     (case (case it of Tuple cs \<Rightarrow> reduce_slices wcs_slice copied 0 cs | _ \<Rightarrow> Inr copied) of
        Inl e \<Rightarrow> Inl e
      | Inr reduced1 \<Rightarrow>
     (case (case it of Single (CSlice s) \<Rightarrow> reduce_dim wcs_slice reduced1 0 s
                     | _ \<Rightarrow> Inr reduced1) of
        Inl e \<Rightarrow> Inl e
      | Inr reducedcube \<Rightarrow>
          if slice_to_map_3d axes1 it then handle_slice_to_map reducedcube it
          else if slice_to_spectrum_3d axes0 axes1 it then handle_slice_to_spectrum reducedcube it
          else if slice_to_spectrogram_3d axes1 it then
            call (Slice_to_spectrogram reducedcube) [pos_arg it 2]
          else if slice_to_lightcurve_3d axes1 it then handle_slice_to_lightcurve reducedcube it
          else if stay_as_cube it then Inr (Reduced_cube reducedcube)
          else Inr (Data_getitem (data cube) it))))))"

section \<open>Orienting an array and its coordinate system\<close>

text \<open>
  \<open>orient\<close>. \<open>wcs_util.reindex_wcs\<close> is not among the source files and is the
  parameter \<open>reindex_wcs\<close>; it returns a new coordinate system, on which \<open>orient\<close> sets
  the two flags. \<open>axtypes[2::-1]\<close> is the reverse of the first three axis types. The
  result is the tuple \<open>(result_array, result_wcs) + result_extras\<close>.
\<close>

definition orient ::
    "(wcs \<Rightarrow> nat list \<Rightarrow> error + wcs) \<Rightarrow> 'a ndarray \<Rightarrow> wcs \<Rightarrow> 'a ndarray list
       \<Rightarrow> error + ('a ndarray \<times> wcs \<times> 'a ndarray list)" where
  "orient reindex_wcs array w extra_arrs =
     (if oriented w then Inr (array, w, extra_arrs)
      else if ndim array \<noteq> 3 \<and> ndim array \<noteq> 4 then
        Inl (ValueError ''Input array must be 3- or 4-dimensional'')
      else if \<not> ((naxis_of w = 3 \<and> ndim array = 3) \<or>
                  (naxis_of w = 4 \<and> ndim array = 4 \<and> \<not> was_augmented w) \<or>
                  (naxis_of w = 4 \<and> ndim array = 3 \<and> was_augmented w)) then
        Inl (ValueError ''WCS must have the same dimensions as the array'')
      else
        (case (if was_augmented w then select_order (rev (take 3 (ctype w)))
               else select_order (ctype w)) of
           Inl e \<Rightarrow> Inl e
         | Inr array_order \<Rightarrow>
        (case np_transpose array array_order of
           Inl e \<Rightarrow> Inl e
         | Inr result_array \<Rightarrow>
        (case select_order (ctype w) of
           Inl e \<Rightarrow> Inl e
         | Inr wcs_order \<Rightarrow>
        (case reindex_wcs w wcs_order of
           Inl e \<Rightarrow> Inl e
         | Inr result_wcs \<Rightarrow>
        (case collect (map (\<lambda>arr. np_transpose arr array_order) extra_arrs) of
           Inl e \<Rightarrow> Inl e
         | Inr result_extras \<Rightarrow>
             Inr (result_array,
                  result_wcs\<lparr>was_augmented := was_augmented w, oriented := True\<rparr>,
                  result_extras)))))))"

section \<open>Converting physical units to pixels\<close>

text \<open>
  Magnitudes are rational numbers: the floating-point arithmetic of the source is taken
  as exact. \<open>int(x)\<close> drops the fraction; \<open>np.round\<close> rounds to the nearest integer and
  a half to the even neighbour.
\<close>

definition py_int :: "rat \<Rightarrow> int" where
  "py_int x = (if 0 \<le> x then \<lfloor>x\<rfloor> else \<lceil>x\<rceil>)"

definition np_round :: "rat \<Rightarrow> int" where
  "np_round x =
     (if x - of_int \<lfloor>x\<rfloor> < 1 / 2 then \<lfloor>x\<rfloor>
      else if 1 / 2 < x - of_int \<lfloor>x\<rfloor> then \<lfloor>x\<rfloor> + 1
      else if even \<lfloor>x\<rfloor> then \<lfloor>x\<rfloor> else \<lfloor>x\<rfloor> + 1)"

text \<open>The WCS axis of a numpy axis, as both conversion functions compute it.\<close>

definition wcs_axis :: "wcs \<Rightarrow> int \<Rightarrow> string \<Rightarrow> int" where
  "wcs_axis w axis source =
     (if source = ''cube'' then (if was_augmented w then - 2 - axis else - 1 - axis)
      else 1 - axis)"

text \<open>
  The integer of a quotient by \<open>cdelt\<close>. A zero \<open>cdelt\<close> gives infinity or NaN in
  floating point, and \<open>int\<close> of either raises.
\<close>

definition round_quotient :: "rat \<Rightarrow> rat \<Rightarrow> rat \<Rightarrow> error + int" where
  "round_quotient offset num den =
     (if den = 0 then
        (if num = 0 then Inl (ValueError ''cannot convert float NaN to integer'')
         else Inl OverflowError)
      else Inr (np_round (offset + num / den)))"

text \<open>
  \<open>convert_point\<close>, for a value that is None or a plain number, as \<open>_convert_slice\<close>
  and \<open>pixelize_slice\<close> pass it. A unit of None or of pixels gives \<open>int(value)\<close>.
\<close>

definition convert_point ::
    "rat option \<Rightarrow> aunit option \<Rightarrow> wcs \<Rightarrow> int \<Rightarrow> string \<Rightarrow> error + int option" where
  "convert_point val un w axis source =
     (case val of
        None \<Rightarrow> Inr None
      | Some v \<Rightarrow>
          (case un of
             None \<Rightarrow> Inr (Some (py_int v))
           | Some u \<Rightarrow>
               if u = pix then Inr (Some (py_int v))
               else
                 (case py_index (cunit w) (wcs_axis w axis source) of
                    Inl e \<Rightarrow> Inl e
                  | Inr cu \<Rightarrow>
                 (case py_index (crpix w) (wcs_axis w axis source) of
                    Inl e \<Rightarrow> Inl e
                  | Inr crp \<Rightarrow>
                 (case py_index (crval w) (wcs_axis w axis source) of
                    Inl e \<Rightarrow> Inl e
                  | Inr crv \<Rightarrow>
                 (case py_index (cdelt w) (wcs_axis w axis source) of
                    Inl e \<Rightarrow> Inl e
                  | Inr cd \<Rightarrow>
                 (case to_unit v u cu of
                    Inl e \<Rightarrow> Inl e
                  | Inr point \<Rightarrow>
                      (case round_quotient crp (point - crv) cd of
                         Inl e \<Rightarrow> Inl e
                       | Inr p \<Rightarrow> Inr (Some p)))))))))"

text \<open>
  A field of a slice that may carry units: None, a plain number, or a quantity with its
  magnitude and unit.
\<close>

datatype sval = SNone | SNum rat | SQuantity rat aunit

record uslice =
  ustart :: sval
  ustop :: sval
  ustep :: sval

text \<open>
  The loop of \<open>_convert_slice\<close> over \<open>[item.start, item.stop, item.step]\<close>: it keeps
  the unit seen so far and collects the magnitudes; a quantity whose unit differs from the
  unit seen so far raises CubeError 5.
\<close>

fun scan_steps :: "sval list \<Rightarrow> aunit option \<Rightarrow> error + (aunit option \<times> rat option list)" where
  "scan_steps [] un = Inr (un, [])"
| "scan_steps (SQuantity v u # rest) un =
     (if un \<noteq> None \<and> Some u \<noteq> un then
        Inl (CubeError 5 ''Only one unit per axis may be given'')
      else (case scan_steps rest (Some u) of
              Inl e \<Rightarrow> Inl e
            | Inr (un', vs) \<Rightarrow> Inr (un', Some v # vs)))"
| "scan_steps (SNum v # rest) un =
     (case scan_steps rest un of
        Inl e \<Rightarrow> Inl e
      | Inr (un', vs) \<Rightarrow> Inr (un', Some v # vs))"
| "scan_steps (SNone # rest) un =
     (case scan_steps rest un of
        Inl e \<Rightarrow> Inl e
      | Inr (un', vs) \<Rightarrow> Inr (un', None # vs))"

definition as_sval :: "int option \<Rightarrow> sval" where
  "as_sval x = (case x of None \<Rightarrow> SNone | Some i \<Rightarrow> SNum (of_int i))"

text \<open>
  \<open>_convert_slice\<close>. Without any unit the slice is returned as it is; otherwise the
  step, the start and the stop are converted in this order.
\<close>

definition convert_slice :: "uslice \<Rightarrow> wcs \<Rightarrow> int \<Rightarrow> string \<Rightarrow> error + uslice" where
  "convert_slice it w axis source =
     (case scan_steps [ustart it, ustop it, ustep it] None of
        Inl e \<Rightarrow> Inl e
      | Inr (un, vals) \<Rightarrow>
          (case un of
             None \<Rightarrow> Inr it
           | Some u \<Rightarrow>
               (case (case vals ! 2 of
                        None \<Rightarrow> Inr None
                      | Some d \<Rightarrow>
                          (case py_index (cunit w) (wcs_axis w axis source) of
                             Inl e \<Rightarrow> Inl e
                           | Inr cu \<Rightarrow>
                          (case py_index (cdelt w) (wcs_axis w axis source) of
                             Inl e \<Rightarrow> Inl e
                           | Inr cd \<Rightarrow>
                          (case to_unit d u cu of
                             Inl e \<Rightarrow> Inl e
                           | Inr dv \<Rightarrow>
                               (case round_quotient 0 dv cd of
                                  Inl e \<Rightarrow> Inl e
                                | Inr p \<Rightarrow> Inr (Some p)))))) of
                  Inl e \<Rightarrow> Inl e
                | Inr delta \<Rightarrow>
                    (case (case vals ! 0 of
                             None \<Rightarrow> Inr None
                           | Some v \<Rightarrow> convert_point (Some v) (Some u) w axis source) of
                       Inl e \<Rightarrow> Inl e
                     | Inr start' \<Rightarrow>
                         (case (case vals ! 1 of
                                  None \<Rightarrow> Inr None
                                | Some v \<Rightarrow> convert_point (Some v) (Some u) w axis source) of
                            Inl e \<Rightarrow> Inl e
                          | Inr end' \<Rightarrow>
                              Inr \<lparr>ustart = as_sval start', ustop = as_sval end',
                                   ustep = as_sval delta\<rparr>)))))"

section \<open>Augmenting a coordinate header\<close>

text \<open>
  A header maps keywords to values; a value is an integer or a string.
\<close>

datatype hval = HInt int | HStr string

type_synonym header = "string \<rightharpoonup> hval"

text \<open>
  The outcome of resolving the axis types of a header in the coordinate-system library:
  it resolves, or it raises InconsistentAxisTypesError, or it raises another exception.
  Of the message of InconsistentAxisTypesError the code reads two things, which the
  outcome carries: whether \<open>Unmatched celestial axes\<close> occurs in it, and the list of the
  matches of \<open>expected [^,]+\<close> in it.
\<close>

datatype resolution = Resolved | Inconsistent bool "string list" | Raises error

text \<open>\<open>str\<close> of an integer.\<close>

definition digit_char :: "nat \<Rightarrow> char" where
  "digit_char d = ''0123456789'' ! d"

function nat_digits :: "nat \<Rightarrow> string" where
  "nat_digits n =
     (if n < 10 then [digit_char n] else nat_digits (n div 10) @ [digit_char (n mod 10)])"
  by pat_completeness auto
termination
  by (relation "measure id") auto

definition py_str :: "int \<Rightarrow> string" where
  "py_str i = (if i < 0 then CHR ''-'' # nat_digits (nat (- i)) else nat_digits (nat i))"

text \<open>
  \<open>max(newheader.get('NAXIS', 0), naxis) + 1\<close>. In Python 2 None is smaller than
  every integer and every integer is smaller than every string; adding 1 to a string raises
  TypeError.
\<close>

definition next_axis :: "header \<Rightarrow> int option \<Rightarrow> error + int" where
  "next_axis newheader naxis =
     (case (case newheader ''NAXIS'' of None \<Rightarrow> HInt 0 | Some v \<Rightarrow> v) of
        HStr s \<Rightarrow> Inl TypeError
      | HInt n \<Rightarrow> Inr ((case naxis of None \<Rightarrow> n | Some k \<Rightarrow> max n k) + 1))"

text \<open>The seven keywords of the synthetic axis, written into the copy of the header.\<close>

definition append_axis :: "header \<Rightarrow> string \<Rightarrow> header" where
  "append_axis h axis =
     h(''CRPIX'' @ axis \<mapsto> HInt 0,
       ''CDELT'' @ axis \<mapsto> HInt 1,
       ''CRVAL'' @ axis \<mapsto> HInt 0,
       ''CNAME'' @ axis \<mapsto> HStr ''redundant axis'',
       ''CTYPE'' @ axis \<mapsto> HStr ''HPLN-TAN'',
       ''CROTA'' @ axis \<mapsto> HInt 0,
       ''CUNIT'' @ axis \<mapsto> HStr ''deg'')"

text \<open>
  \<open>WCS._augment\<close>. The parameter \<open>get_axis_types\<close> is the outcome of
  \<open>wcs.WCS(header=newheader).get_axis_types()\<close>. The function writes to two objects,
  the copy \<open>newheader\<close> and, in the handler, the argument \<open>header\<close>; the result is the
  pair of the returned header and of the argument as the call leaves it.
\<close>

definition augment ::
    "(header \<Rightarrow> resolution) \<Rightarrow> header \<Rightarrow> int option \<Rightarrow> error + (header \<times> header)" where
  "augment get_axis_types header naxis =
     (case next_axis header naxis of
        Inl e \<Rightarrow> Inl e
      | Inr n \<Rightarrow>
          (case get_axis_types (append_axis header (py_str n)) of
             Resolved \<Rightarrow> Inr (append_axis header (py_str n), header)
           | Raises e \<Rightarrow> Inl e
           | Inconsistent unmatched expected \<Rightarrow>
               (case py_index expected 0 of
                  Inl e \<Rightarrow> Inl e
                | Inr m \<Rightarrow>
                    Inr (append_axis header (py_str n),
                         header(''CTYPE'' @ py_str n \<mapsto> HStr (drop 9 m))))))"

text \<open>
  \<open>WCS._needs_augmenting\<close>. The parameter \<open>base_init\<close> is the outcome of the
  constructor of the library class for a header and an axis count.
\<close>

definition needs_augmenting ::
    "(header \<Rightarrow> int option \<Rightarrow> resolution) \<Rightarrow> header \<Rightarrow> error + bool" where
  "needs_augmenting base_init header =
     (case base_init header None of
        Resolved \<Rightarrow> Inr False
      | Inconsistent unmatched expected \<Rightarrow> Inr unmatched
      | Raises e \<Rightarrow> Inl e)"

text \<open>
  \<open>WCS.__init__\<close>. The object it builds is recorded by the header and the axis count
  handed to the constructor of the library class and by the two flags. The result is the
  pair of the object and of the argument \<open>header\<close> as the call leaves it.
\<close>

record wcs_object =
  built_header :: header
  built_naxis :: "int option"
  obj_oriented :: bool
  obj_was_augmented :: bool

definition WCS_init ::
    "(header \<Rightarrow> int option \<Rightarrow> resolution) \<Rightarrow> (header \<Rightarrow> resolution) \<Rightarrow> header \<Rightarrow> int option
       \<Rightarrow> error + (wcs_object \<times> header)" where
  "WCS_init base_init get_axis_types header naxis =
     (case needs_augmenting base_init header of
        Inl e \<Rightarrow> Inl e
      | Inr True \<Rightarrow>
          (case augment get_axis_types header naxis of
             Inl e \<Rightarrow> Inl e
           | Inr (newheader, header_after) \<Rightarrow>
               (case base_init newheader (map_option (\<lambda>n. n + 1) naxis) of
                  Resolved \<Rightarrow>
                    Inr (\<lparr>built_header = newheader,
                          built_naxis = map_option (\<lambda>n. n + 1) naxis,
                          obj_oriented = False, obj_was_augmented = True\<rparr>, header_after)
                | Inconsistent unmatched expected \<Rightarrow> Inl InconsistentAxisTypesError
                | Raises e \<Rightarrow> Inl e))
      | Inr False \<Rightarrow>
          (case base_init header naxis of
             Resolved \<Rightarrow>
               Inr (\<lparr>built_header = header, built_naxis = naxis,
                     obj_oriented = False, obj_was_augmented = False\<rparr>, header)
           | Inconsistent unmatched expected \<Rightarrow> Inl InconsistentAxisTypesError
           | Raises e \<Rightarrow> Inl e))"

section \<open>Indexing a cube sequence as one cube\<close>

text \<open>The sequence of cubes with its common axis and its metadata.\<close>

record cubesequence =
  seq_data :: "cube list"
  common_axis :: int
  seq_meta :: "(string \<times> string) list"

text \<open>
  A component of the index that \<open>index_sequence_as_cube\<close> hands to the indexing of the
  sequence: an int or a slice computed by the conversion, the list of slices of a request
  that crosses cubes, or a component of the original index.
\<close>

datatype seq_comp = SInt int | SSlice pslice | SSlices "pslice list" | SOrig comp

fun of_cube_slices :: "cube_slices \<Rightarrow> seq_comp" where
  "of_cube_slices (OneSlice s) = SSlice s"
| "of_cube_slices (SliceList l) = SSlices l"

text \<open>\<open>xs[i] = v\<close> on a list: a negative index counts from the end, an index out of
  range raises IndexError.\<close>

definition py_update :: "'a list \<Rightarrow> int \<Rightarrow> 'a \<Rightarrow> error + 'a list" where
  "py_update xs i v =
     (if 0 \<le> i \<and> i < int (length xs) then Inr (xs[nat i := v])
      else if i < 0 \<and> - int (length xs) \<le> i then Inr (xs[nat (int (length xs) + i) := v])
      else Inl IndexError)"

definition int_index_message :: string where
  "int_index_message =
     ''Input can only be indexed with an int if CubeSequence's common axis is 0. common axis = ''"

definition single_slice_message :: string where
  "single_slice_message =
     ''Input can only be sliced with a single slice if CubeSequence's common axis is 0. common axis = ''"

definition too_short_message :: string where
  "too_short_message = ''Input item not long enough to include common axis.''"

text \<open>
  The four cases of \<open>index_sequence_as_cube\<close> and its last \<open>else\<close>: the result is the
  triple \<open>(sequence_index, cube_index, item_list)\<close>. The test of the length in the
  cases 3 and 4 comes after \<open>item[common_axis]\<close> has been read.
\<close>

definition locate_common_axis ::
    "int \<Rightarrow> int list \<Rightarrow> item \<Rightarrow> error + (seq_comp \<times> seq_comp \<times> seq_comp list)" where
  "locate_common_axis axis cumul_cube_lengths it =
     (case it of
        Single (CInt i) \<Rightarrow>
          if axis \<noteq> 0 then Inl (ValueError (int_index_message @ py_str axis))
          else
            (case convert_cube_like_index_to_sequence_indices i cumul_cube_lengths of
               Inl e \<Rightarrow> Inl e
             | Inr (sequence_index, cube_index) \<Rightarrow>
                 Inr (SInt sequence_index, SInt cube_index, [SOrig (CInt i)]))
      | Single (CSlice s) \<Rightarrow>
          if axis \<noteq> 0 then Inl (ValueError (single_slice_message @ py_str axis))
          else
            (case convert_cube_like_slice_to_sequence_slices s cumul_cube_lengths of
               Inl e \<Rightarrow> Inl e
             | Inr (sequence_index, cube_index) \<Rightarrow>
                 Inr (SSlice sequence_index, of_cube_slices cube_index, [SOrig (CSlice s)]))
      | Single COther \<Rightarrow> Inl TypeError
      | Tuple cs \<Rightarrow>
          (case py_index cs axis of
             Inl e \<Rightarrow> Inl e
           | Inr (CInt i) \<Rightarrow>
               if int (length cs) < axis then Inl (ValueError too_short_message)
               else
                 (case convert_cube_like_index_to_sequence_indices i cumul_cube_lengths of
                    Inl e \<Rightarrow> Inl e
                  | Inr (sequence_index, cube_index) \<Rightarrow>
                      Inr (SInt sequence_index, SInt cube_index, map SOrig cs))
           | Inr (CSlice s) \<Rightarrow>
               if int (length cs) < axis then Inl (ValueError too_short_message)
               else
                 (case convert_cube_like_slice_to_sequence_slices s cumul_cube_lengths of
                    Inl e \<Rightarrow> Inl e
                  | Inr (sequence_index, cube_index) \<Rightarrow>
                      Inr (SSlice sequence_index, of_cube_slices cube_index, map SOrig cs))
           | Inr COther \<Rightarrow> Inl (ValueError ''Invalid index/slice input.'')))"

text \<open>
  \<open>index_sequence_as_cube\<close>. The indexing of the sequence, \<open>cubesequence[item_tuple]\<close>,
  is the parameter \<open>seq_getitem\<close>.
\<close>

definition index_sequence_as_cube ::
    "(cubesequence \<Rightarrow> seq_comp list \<Rightarrow> error + 'r) \<Rightarrow> cubesequence \<Rightarrow> item \<Rightarrow> error + 'r" where
  "index_sequence_as_cube seq_getitem cubesequence it =
     (case collect (map (\<lambda>c. py_index (shape (data c)) (common_axis cubesequence))
                      (seq_data cubesequence)) of
        Inl e \<Rightarrow> Inl e
      | Inr lens \<Rightarrow>
          (case locate_common_axis (common_axis cubesequence) (cumsum (map int lens)) it of
             Inl e \<Rightarrow> Inl e
           | Inr (sequence_index, cube_index, item_list) \<Rightarrow>
               (case py_update item_list (common_axis cubesequence) cube_index of
                  Inl e \<Rightarrow> Inl e
                | Inr item_list' \<Rightarrow>
                    seq_getitem cubesequence (sequence_index # item_list'))))"

section \<open>The shape invariant and concrete inputs\<close>

text \<open>
  The invariant of the data model: the mask and the uncertainty array, when present, have
  the shape of the data.
\<close>

definition same_shapes :: "cube \<Rightarrow> bool" where
  "same_shapes c =
     ((case mask c of None \<Rightarrow> True | Some m \<Rightarrow> shape m = shape (data c)) \<and>
      (case uncertainty c of None \<Rightarrow> True | Some u \<Rightarrow> shape u = shape (data c)))"

text \<open>
  The closed examples need one concrete behaviour for the slicing operation of the
  coordinate-system library. \<open>keep_wcs\<close> returns the system as it is; the general
  theorems hold for every slicing operation.
\<close>

definition keep_wcs :: "wcs \<Rightarrow> pslice list \<Rightarrow> error + wcs" where
  "keep_wcs w sl = Inr w"

text \<open>A cube of shape \<open>(6, 1, 1)\<close> whose axis types are WAVE, HPLT-TAN, HPLN-TAN.\<close>

definition wave_first_wcs :: wcs where
  "wave_first_wcs =
     \<lparr>ctype = [''WAVE'', ''HPLT-TAN'', ''HPLN-TAN''],
      crpix = [0, 0, 0], crval = [0, 0, 0], cdelt = [1, 1, 1],
      cunit = [Unit ''length'' 1, deg, deg],
      oriented = True, was_augmented = False\<rparr>"

definition wave_first_cube :: cube where
  "wave_first_cube =
     \<lparr>data = \<lparr>shape = [6, 1, 1], flat = [0, 1, 2, 3, 4, 5]\<rparr>,
      axes_wcs = wave_first_wcs, mask = None, uncertainty = None,
      meta = [], unit = None\<rparr>"

definition full_slice :: pslice where
  "full_slice = mk_slice None None None"

text \<open>
  Modelled from the spec: \<open>reindex_wcs\<close> of \<open>wcs_util\<close> is not among the source
  files. The spec says it produces a reindexed coordinate system reflecting the new axis
  order; here each per-axis array is permuted by the order. It is used in the closed
  examples only: the general theorems hold for every reindexing operation.
\<close>

definition reindex_axes :: "wcs \<Rightarrow> nat list \<Rightarrow> error + wcs" where
  "reindex_axes w order =
     Inr \<lparr>ctype = map (\<lambda>k. ctype w ! k) order,
          crpix = map (\<lambda>k. crpix w ! k) order,
          crval = map (\<lambda>k. crval w ! k) order,
          cdelt = map (\<lambda>k. cdelt w ! k) order,
          cunit = map (\<lambda>k. cunit w ! k) order,
          oriented = False, was_augmented = False\<rparr>"

text \<open>A coordinate system that is not oriented yet, and an array of shape \<open>(1, 1, 2)\<close>.\<close>

definition space_first_wcs :: wcs where
  "space_first_wcs =
     \<lparr>ctype = [''HPLN-TAN'', ''HPLT-TAN'', ''WAVE''],
      crpix = [0, 0, 0], crval = [0, 0, 0], cdelt = [1, 1, 1],
      cunit = [deg, deg, Unit ''length'' 1],
      oriented = False, was_augmented = False\<rparr>"

definition small_array :: "rat ndarray" where
  "small_array = \<lparr>shape = [1, 1, 2], flat = [7, 9]\<rparr>"

text \<open>
  A header with a helioprojective longitude axis and a wavelength axis, and one concrete
  behaviour of the library on headers of up to three axes: two longitude axes are
  inconsistent and the message names the expected latitude type; a longitude axis alone
  is an unmatched celestial axis.
\<close>

definition lon_wave_header :: header where
  "lon_wave_header =
     [''NAXIS'' \<mapsto> HInt 2, ''CTYPE1'' \<mapsto> HStr ''HPLN-TAN'', ''CTYPE2'' \<mapsto> HStr ''WAVE'']"

definition count_ctype :: "header \<Rightarrow> string \<Rightarrow> nat" where
  "count_ctype h t =
     length (filter (\<lambda>k. h k = Some (HStr t)) [''CTYPE1'', ''CTYPE2'', ''CTYPE3''])"

definition celestial_pairing :: "header \<Rightarrow> resolution" where
  "celestial_pairing h =
     (if 2 \<le> count_ctype h ''HPLN-TAN'' then Inconsistent False [''expected HPLT-TAN'']
      else if count_ctype h ''HPLN-TAN'' \<noteq> count_ctype h ''HPLT-TAN'' then Inconsistent True []
      else Resolved)"

definition celestial_init :: "header \<Rightarrow> int option \<Rightarrow> resolution" where
  "celestial_init h n = celestial_pairing h"

text \<open>
  A sequence of three copies of the cube of shape \<open>(6, 1, 1)\<close>, and one concrete
  behaviour for the indexing of the sequence, which returns the index it is given.
\<close>

definition three_cubes :: "int \<Rightarrow> cubesequence" where
  "three_cubes axis =
     \<lparr>seq_data = [wave_first_cube, wave_first_cube, wave_first_cube],
      common_axis = axis, seq_meta = []\<rparr>"

definition echo_index :: "cubesequence \<Rightarrow> seq_comp list \<Rightarrow> error + seq_comp list" where
  "echo_index cs it = Inr it"

text \<open>An array of rank 2, a coordinate system of four axes that is not augmented, and a
  slice from degrees to arcseconds.\<close>

definition rank2_array :: "rat ndarray" where
  "rank2_array = \<lparr>shape = [2, 2], flat = [1, 2, 3, 4]\<rparr>"

definition four_axis_wcs :: wcs where
  "four_axis_wcs =
     \<lparr>ctype = [''HPLN-TAN'', ''HPLT-TAN'', ''WAVE'', ''TIME''],
      crpix = [0, 0, 0, 0], crval = [0, 0, 0, 0], cdelt = [1, 1, 1, 1],
      cunit = [deg, deg, Unit ''length'' 1, Unit ''time'' 1],
      oriented = False, was_augmented = False\<rparr>"

definition deg_to_arcsec_slice :: uslice where
  "deg_to_arcsec_slice = \<lparr>ustart = SQuantity 1 deg, ustop = SQuantity 2 arcsec, ustep = SNone\<rparr>"

section \<open>Properties of the sequence index conversion\<close>

lemma cumsum_from_length: "length (cumsum_from acc xs) = length xs"
  by (induction xs arbitrary: acc) auto

lemma cumsum_from_bounds:
  "\<forall>x\<in>set xs. 0 \<le> x \<Longrightarrow> c \<in> set (cumsum_from acc xs) \<Longrightarrow>
     acc \<le> c \<and> c \<le> last (cumsum_from acc xs)"
proof (induction xs arbitrary: acc c)
  case Nil
  then show ?case by simp
next
  case (Cons x xs)
  have nn: "\<forall>x\<in>set xs. 0 \<le> x" and x0: "0 \<le> x" using Cons.prems(1) by auto
  show ?case
  proof (cases xs)
    case Nil
    with Cons.prems x0 show ?thesis by auto
  next
    case tail: (Cons y ys)
    have ne: "cumsum_from (acc + x) xs \<noteq> []" using tail by simp
    have hd_in: "acc + x + y \<in> set (cumsum_from (acc + x) xs)" using tail by simp
    have y0: "0 \<le> y" using nn tail by simp
    have up: "acc + x \<le> last (cumsum_from (acc + x) xs)"
      using Cons.IH [OF nn hd_in] y0 by linarith
    from Cons.prems(2) have "c = acc + x \<or> c \<in> set (cumsum_from (acc + x) xs)" by auto
    then show ?thesis
    proof
      assume "c = acc + x"
      then show ?thesis using x0 up ne by simp
    next
      assume "c \<in> set (cumsum_from (acc + x) xs)"
      from Cons.IH [OF nn this] show ?thesis using x0 ne by simp
    qed
  qed
qed

lemma np_where_le_all:
  "\<forall>c\<in>set cumul. c \<le> i \<Longrightarrow> np_where_le cumul i = [0..<length cumul]"
  unfolding np_where_le_def by (rule filter_True) simp

lemma py_index_zero: "xs \<noteq> [] \<Longrightarrow> py_index xs 0 = Inr (hd xs)"
  by (cases xs) (simp_all add: py_index_def)

lemma py_index_minus_one: "xs \<noteq> [] \<Longrightarrow> py_index xs (- 1) = Inr (last xs)"
  by (cases xs rule: rev_cases) (simp_all add: py_index_def)

lemma index_beyond_all:
  assumes ne: "cumul \<noteq> []" and all: "\<forall>c\<in>set cumul. c \<le> i"
  shows "convert_cube_like_index_to_sequence_indices i cumul
           = Inr (int (length cumul) - 1, hd cumul - 1)"
proof -
  have h: "hd cumul \<le> i" using ne all by (cases cumul) auto
  have l: "last cumul \<le> i" using ne all by simp
  have w: "py_index (np_where_le cumul i) (- 1) = Inr (length cumul - 1)"
    using ne by (simp add: np_where_le_all [OF all] py_index_minus_one)
  have n: "int (length cumul - Suc 0) = int (length cumul) - 1"
    using ne by (cases cumul) auto
  show ?thesis
    unfolding convert_cube_like_index_to_sequence_indices_def
    using h l by (simp add: py_index_zero [OF ne] py_index_minus_one [OF ne] w n)
qed

text \<open>
  C5. Three cubes of extent 3 along the common axis have the cumulative lengths
  \<open>[3, 6, 9]\<close>. The global slice \<open>slice(2, 7)\<close> becomes the sequence slice
  \<open>slice(0, 3)\<close>, which selects the cubes 0, 1 and 2, and the list of the two local slices
  \<open>[slice(2, 3), slice(0, 1)]\<close>: the tail of cube 0 and the head of cube 2. Cube 1 has no
  local slice of its own.
\<close>

theorem C5_slice_2_7_across_three_cubes:
  "cumsum [3, 3, 3] = [3, 6, 9] \<and>
   convert_cube_like_slice_to_sequence_slices (mk_slice (Some 2) (Some 7) None) (cumsum [3, 3, 3])
     = Inr (mk_slice (Some 0) (Some 3) None,
            SliceList [mk_slice (Some 2) (Some 3) None, mk_slice (Some 0) (Some 1) None])"
  by (simp add: cumsum_def convert_cube_like_slice_to_sequence_slices_def
        convert_cube_like_index_to_sequence_indices_def py_index_def np_where_le_def
        mk_slice_def upt_rec [of 0] upt_rec [of 1] upt_rec [of 2] upt_rec [of 3])

text \<open>
  C6. For every non-empty sequence of cubes, with extents \<open>lens\<close> along the common axis,
  the index conversion applied to a global index at or beyond the final cumulative length
  returns a result, not an error; the local index of the result is the extent of the first
  cube minus one.
\<close>

theorem C6_index_beyond_end_clamps_to_first_cube:
  assumes "lens \<noteq> []"
      and "last (cumsum (map int lens)) \<le> i"
  shows "convert_cube_like_index_to_sequence_indices i (cumsum (map int lens))
           = Inr (int (length lens) - 1, int (hd lens) - 1)"
proof -
  let ?cumul = "cumsum (map int lens)"
  have ne: "?cumul \<noteq> []"
    using assms(1) by (cases lens) (simp_all add: cumsum_def)
  have nn: "\<forall>x\<in>set (map int lens). 0 \<le> x" by simp
  have all: "\<forall>c\<in>set ?cumul. c \<le> i"
    using cumsum_from_bounds [OF nn] assms(2) unfolding cumsum_def by fastforce
  have hd: "hd ?cumul = int (hd lens)"
    using assms(1) by (cases lens) (simp_all add: cumsum_def)
  have len: "length ?cumul = length lens"
    by (simp add: cumsum_def cumsum_from_length)
  show ?thesis using index_beyond_all [OF ne all] by (simp add: hd len)
qed

theorem C6_witness:
  "[3, 3, 3 :: nat] \<noteq> [] \<and> last (cumsum (map int [3, 3, 3])) \<le> 9 \<and>
   convert_cube_like_index_to_sequence_indices 9 (cumsum (map int [3, 3, 3])) = Inr (2, 2)"
  using C6_index_beyond_end_clamps_to_first_cube [of "[3, 3, 3]" 9]
  by (simp add: cumsum_def)

section \<open>Properties of the canonical axis order\<close>

lemma list_index_first_pos: "x \<in> set xs \<Longrightarrow> list_index xs x = Inr (first_pos xs x)"
  by (induction xs) (auto simp: first_pos_def)

lemma collect_map_Inr: "\<forall>x\<in>set xs. f x = Inr (g x) \<Longrightarrow> collect (map f xs) = Inr (map g xs)"
  by (induction xs) auto

lemma first_pos_nth: "distinct xs \<Longrightarrow> i < length xs \<Longrightarrow> first_pos xs (xs ! i) = i"
proof (induction xs arbitrary: i)
  case Nil
  then show ?case by simp
next
  case (Cons x xs)
  show ?case
  proof (cases i)
    case 0
    then show ?thesis by (simp add: first_pos_def)
  next
    case (Suc j)
    have j: "j < length xs" using Cons.prems(2) Suc by simp
    have d: "distinct xs" using Cons.prems(1) by simp
    have "xs ! j \<in> set xs" using j by simp
    then have neq: "x \<noteq> xs ! j" using Cons.prems(1) by auto
    have "first_pos xs (xs ! j) = j" using Cons.IH [OF d j] .
    then show ?thesis using neq Suc by (simp add: first_pos_def)
  qed
qed

lemma map_first_pos: "distinct xs \<Longrightarrow> map (first_pos xs) xs = [0..<length xs]"
  by (rule nth_equalityI) (simp_all add: first_pos_nth)

lemma order_entry_priority:
  "t \<in> set axtypes \<Longrightarrow> order_entry axtypes t = Inr (priority axtypes t, t)"
  by (simp add: order_entry_def priority_def list_index_first_pos)

lemma select_order_eq:
  "select_order axtypes
     = Inr (map (\<lambda>(p, s). first_pos axtypes s)
              (sort (map (\<lambda>t. (priority axtypes t, t)) axtypes)))"
proof -
  let ?order = "map (\<lambda>t. (priority axtypes t, t)) axtypes"
  have 1: "collect (map (order_entry axtypes) axtypes) = Inr ?order"
    by (rule collect_map_Inr) (simp add: order_entry_priority)
  have "\<forall>e\<in>set (sort ?order).
          (\<lambda>(_, s). list_index axtypes s) e = Inr ((\<lambda>(p, s). first_pos axtypes s) e)"
    by (auto simp: list_index_first_pos)
  then have 2: "collect (map (\<lambda>(_, s). list_index axtypes s) (sort ?order))
                  = Inr (map (\<lambda>(p, s). first_pos axtypes s) (sort ?order))"
    by (rule collect_map_Inr)
  show ?thesis by (simp add: select_order_def 1 2)
qed

lemma select_order_mset:
  "select_order axtypes = Inr r \<Longrightarrow> mset r = mset (map (first_pos axtypes) axtypes)"
proof -
  assume a: "select_order axtypes = Inr r"
  let ?order = "map (\<lambda>t. (priority axtypes t, t)) axtypes"
  have r: "r = map (\<lambda>(p, s). first_pos axtypes s) (sort ?order)"
    using a by (simp add: select_order_eq)
  have "mset r = image_mset (\<lambda>(p, s). first_pos axtypes s) (mset (sort ?order))"
    by (simp add: r)
  also have "\<dots> = image_mset (\<lambda>(p, s). first_pos axtypes s) (mset ?order)"
    by simp
  also have "\<dots> = mset (map (first_pos axtypes) axtypes)"
    by (simp add: image_mset.compositionality comp_def)
  finally show ?thesis .
qed

text \<open>
  C3, as amended. For every list of axis types that holds no tag twice, \<open>select_order\<close>
  returns a list of the same length whose entries are a bijection on the positions of the
  list.
\<close>

theorem C3_select_order_permutation:
  assumes "distinct axtypes"
  shows "\<exists>r. select_order axtypes = Inr r \<and> length r = length axtypes \<and>
             bij_betw (\<lambda>i. r ! i) {..<length axtypes} {..<length axtypes}"
proof -
  define r where "r = map (\<lambda>(p, s). first_pos axtypes s)
                        (sort (map (\<lambda>t. (priority axtypes t, t)) axtypes))"
  have r: "select_order axtypes = Inr r"
    unfolding r_def by (rule select_order_eq)
  have m: "mset r = mset [0..<length axtypes]"
    using select_order_mset [OF r] map_first_pos [OF assms] by (simp only:)
  have len: "length r = length axtypes"
    using mset_eq_length [OF m] by (simp only: length_upt diff_zero)
  have d: "distinct r"
    using mset_eq_imp_distinct_iff [OF m] distinct_upt by (simp only:)
  have "set r = set [0..<length axtypes]" by (rule mset_eq_setD [OF m])
  then have s: "set r = {..<length axtypes}"
    by (simp only: set_upt atLeast0LessThan)
  have "bij_betw (\<lambda>i. r ! i) {..<length r} (set r)"
    by (rule bij_betw_nth [OF d refl refl])
  then have b: "bij_betw (\<lambda>i. r ! i) {..<length axtypes} {..<length axtypes}"
    by (simp only: len s)
  from r len b show ?thesis by blast
qed

theorem C3_witness:
  "distinct [''HPLN-TAN'', ''TIME'', ''WAVE''] \<and>
   (\<exists>r. select_order [''HPLN-TAN'', ''TIME'', ''WAVE''] = Inr r \<and>
        length r = length [''HPLN-TAN'', ''TIME'', ''WAVE''] \<and>
        bij_betw (\<lambda>i. r ! i) {..<length [''HPLN-TAN'', ''TIME'', ''WAVE'']}
          {..<length [''HPLN-TAN'', ''TIME'', ''WAVE'']})"
proof -
  have d: "distinct [''HPLN-TAN'', ''TIME'', ''WAVE'']" by simp
  from d C3_select_order_permutation [OF d] show ?thesis by (rule conjI)
qed

lemma select_order_docstring_example:
  "select_order [''HPLN-TAN'', ''TIME'', ''WAVE''] = Inr [1, 2, 0]"
  by code_simp

text \<open>
  C3 as stated fails: a list may hold neither TIME nor WAVE twice and still hold a spatial
  tag twice, and then \<open>select_order\<close> returns the first position of that tag twice.
\<close>

theorem C3_counterexample:
  "count_list [''HPLN-TAN'', ''HPLN-TAN'', ''WAVE''] ''TIME'' \<le> 1 \<and>
   count_list [''HPLN-TAN'', ''HPLN-TAN'', ''WAVE''] ''WAVE'' \<le> 1 \<and>
   select_order [''HPLN-TAN'', ''HPLN-TAN'', ''WAVE''] = Inr [2, 0, 0] \<and>
   \<not> bij_betw (\<lambda>i. [2, 0, 0 :: nat] ! i) {..<3} {..<3}"
proof -
  have c1: "count_list [''HPLN-TAN'', ''HPLN-TAN'', ''WAVE''] ''TIME'' \<le> 1" by simp
  have c2: "count_list [''HPLN-TAN'', ''HPLN-TAN'', ''WAVE''] ''WAVE'' \<le> 1" by simp
  have ev: "select_order [''HPLN-TAN'', ''HPLN-TAN'', ''WAVE''] = Inr [2, 0, 0]"
    by code_simp
  have "\<not> inj_on (\<lambda>i. [2, 0, 0 :: nat] ! i) {..<3}"
  proof
    assume "inj_on (\<lambda>i. [2, 0, 0 :: nat] ! i) {..<3}"
    then have "(1::nat) = 2" by (rule inj_onD) simp_all
    then show False by simp
  qed
  then have nb: "\<not> bij_betw (\<lambda>i. [2, 0, 0 :: nat] ! i) {..<3} {..<3}"
    by (simp only: bij_betw_def de_Morgan_conj simp_thms)
  from c1 c2 ev nb show ?thesis by (intro conjI)
qed

section \<open>Properties of the reduction of one axis\<close>

lemma py_range_full: "py_range 0 (int n) 1 = Inr (map int [0..<n])"
  by (simp add: py_range_def)

lemma py_index_nat: "k < length xs \<Longrightarrow> py_index xs (int k) = Inr (xs ! k)"
  by (simp add: py_index_def)

lemma collect_axis_positions:
  "collect (map (axis_position n \<circ> int) [0..<n]) = Inr [0..<n]"
proof -
  have "\<forall>k\<in>set [0..<n]. (axis_position n \<circ> int) k = Inr (id k)"
    by (simp add: axis_position_def)
  then have "collect (map (axis_position n \<circ> int) [0..<n]) = Inr (map id [0..<n])"
    by (rule collect_map_Inr)
  then show ?thesis by simp
qed

lemma np_take_full_shape:
  "axis < length (shape a) \<Longrightarrow>
     \<exists>b. np_take a (map int [0..<shape a ! axis]) axis = Inr b \<and> shape b = shape a"
  by (simp add: np_take_def Let_def collect_axis_positions)


lemma reduce_dim_full:
  assumes ax: "axis < length (shape (data c))"
      and ss: "same_shapes c"
      and ws: "\<forall>w sl. \<exists>w'. wcs_slice w sl = Inr w'"
  shows "\<exists>c'. reduce_dim wcs_slice c axis full_slice = Inr c' \<and>
              shape (data c') = shape (data c) \<and> same_shapes c'"
proof -
  let ?n = "shape (data c) ! axis"
  let ?idx = "map int [0..<?n]"
  obtain d where d: "np_take (data c) ?idx axis = Inr d" "shape d = shape (data c)"
    using np_take_full_shape [OF ax] by blast
  obtain w' where w': "wcs_slice (axes_wcs c)
       (map (\<lambda>i. mk_slice (Some 0) (Some (int (shape (data c) ! i))) None) [0..<axis]
        @ [mk_slice (Some 0) (Some (int ?n)) None]) = Inr w'"
    using ws by blast
  have u: "\<exists>u'. (case uncertainty c of None \<Rightarrow> Inr None
                 | Some errors \<Rightarrow> (case np_take errors ?idx axis of Inl e \<Rightarrow> Inl e
                                   | Inr errors' \<Rightarrow> Inr (Some errors'))) = Inr u'
              \<and> (case u' of None \<Rightarrow> True | Some x \<Rightarrow> shape x = shape (data c))"
  proof (cases "uncertainty c")
    case None
    then show ?thesis by simp
  next
    case (Some errors)
    then have sh: "shape errors = shape (data c)" using ss by (simp add: same_shapes_def)
    then have "axis < length (shape errors)" using ax by simp
    from np_take_full_shape [OF this] sh Some show ?thesis by auto
  qed
  have m: "\<exists>m'. (case mask c of None \<Rightarrow> Inr None
                 | Some m \<Rightarrow> (case np_take m ?idx axis of Inl e \<Rightarrow> Inl e
                                   | Inr m' \<Rightarrow> Inr (Some m'))) = Inr m'
              \<and> (case m' of None \<Rightarrow> True | Some x \<Rightarrow> shape x = shape (data c))"
  proof (cases "mask c")
    case None
    then show ?thesis by simp
  next
    case (Some mk)
    then have sh: "shape mk = shape (data c)" using ss by (simp add: same_shapes_def)
    then have "axis < length (shape mk)" using ax by simp
    from np_take_full_shape [OF this] sh Some show ?thesis by auto
  qed
  from u obtain u' where u': "(case uncertainty c of None \<Rightarrow> Inr None
                 | Some errors \<Rightarrow> (case np_take errors ?idx axis of Inl e \<Rightarrow> Inl e
                                   | Inr errors' \<Rightarrow> Inr (Some errors'))) = Inr u'"
       "(case u' of None \<Rightarrow> True | Some x \<Rightarrow> shape x = shape (data c))" by blast
  from m obtain m' where m': "(case mask c of None \<Rightarrow> Inr None
                 | Some m \<Rightarrow> (case np_take m ?idx axis of Inl e \<Rightarrow> Inl e
                                   | Inr m' \<Rightarrow> Inr (Some m'))) = Inr m'"
       "(case m' of None \<Rightarrow> True | Some x \<Rightarrow> shape x = shape (data c))" by blast
  have "reduce_dim wcs_slice c axis full_slice =
          Inr \<lparr>data = d, axes_wcs = w', mask = m', uncertainty = u',
               meta = meta c, unit = unit c\<rparr>"
    unfolding reduce_dim_def full_slice_def mk_slice_def
    using ax d(1) w' u'(1) m'(1)
    by (simp add: py_index_nat py_range_full mk_slice_def)
  then show ?thesis using d(2) u'(2) m'(2)
    by (auto simp: same_shapes_def split: option.splits)
qed

lemma py_range_step_one:
  "py_range lo hi 1 = Inr (map (\<lambda>k. lo + int k) [0..<nat (hi - lo)])"
  by (simp add: py_range_def)

lemma collect_axis_positions_range:
  assumes "0 \<le> lo" and "hi \<le> int n"
  shows "collect (map (axis_position n) (map (\<lambda>k. lo + int k) [0..<nat (hi - lo)]))
           = Inr (map (\<lambda>k. nat lo + k) [0..<nat (hi - lo)])"
proof -
  have "\<forall>k\<in>set [0..<nat (hi - lo)].
          (axis_position n \<circ> (\<lambda>k. lo + int k)) k = Inr (nat lo + k)"
    using assms by (auto simp: axis_position_def nat_add_distrib)
  then have "collect (map (axis_position n \<circ> (\<lambda>k. lo + int k)) [0..<nat (hi - lo)])
               = Inr (map (\<lambda>k. nat lo + k) [0..<nat (hi - lo)])"
    by (rule collect_map_Inr)
  then show ?thesis by (simp add: comp_def)
qed

lemma np_take_range:
  assumes "axis < length (shape a)" and "0 \<le> lo" and "hi \<le> int (shape a ! axis)"
  shows "\<exists>d. np_take a (map (\<lambda>k. lo + int k) [0..<nat (hi - lo)]) axis = Inr d \<and>
             shape d = (shape a)[axis := nat (hi - lo)] \<and>
             (hi \<le> lo \<longrightarrow> flat d = [])"
  using assms collect_axis_positions_range [OF assms(2) assms(3)]
  by (simp add: np_take_def Let_def)

lemma reduce_dim_unfold:
  assumes ax: "axis < length (shape (data c))"
  shows "reduce_dim wcs_slice c axis (mk_slice (Some a) (Some b) None) =
     (case np_take (data c)
             (map (\<lambda>k. max 0 a + int k)
                [0..<nat (min b (int (shape (data c) ! axis)) - max 0 a)]) axis of
        Inl e \<Rightarrow> Inl e
      | Inr newdata \<Rightarrow>
          (case wcs_slice (axes_wcs c)
                  (map (\<lambda>i. mk_slice (Some 0) (Some (int (shape (data c) ! i))) None) [0..<axis]
                   @ [mk_slice (Some (max 0 a))
                        (Some (min b (int (shape (data c) ! axis)))) None]) of
             Inl e \<Rightarrow> Inl e
           | Inr newwcs \<Rightarrow>
               (case (case uncertainty c of
                        None \<Rightarrow> Inr None
                      | Some errors \<Rightarrow>
                          (case np_take errors
                                  (map (\<lambda>k. max 0 a + int k)
                                     [0..<nat (min b (int (shape (data c) ! axis)) - max 0 a)])
                                  axis of
                             Inl e \<Rightarrow> Inl e
                           | Inr errors' \<Rightarrow> Inr (Some errors'))) of
                  Inl e \<Rightarrow> Inl e
                | Inr new_errors \<Rightarrow>
                    (case (case mask c of
                             None \<Rightarrow> Inr None
                           | Some m \<Rightarrow>
                               (case np_take m
                                       (map (\<lambda>k. max 0 a + int k)
                                          [0..<nat (min b (int (shape (data c) ! axis)) - max 0 a)])
                                       axis of
                                  Inl e \<Rightarrow> Inl e
                                | Inr m' \<Rightarrow> Inr (Some m'))) of
                       Inl e \<Rightarrow> Inl e
                     | Inr new_mask \<Rightarrow>
                         Inr \<lparr>data = newdata, axes_wcs = newwcs,
                              mask = new_mask, uncertainty = new_errors,
                              meta = meta c, unit = unit c\<rparr>))))"
  unfolding reduce_dim_def
  by (simp add: py_index_nat [OF ax] mk_slice_def py_range_step_one max_def min_def Let_def
        cong: sum.case_cong option.case_cong)

lemma reduce_dim_clamps:
  assumes ax: "axis < length (shape (data c))"
      and ss: "same_shapes c"
      and ws: "wcs_slice (axes_wcs c)
                 (map (\<lambda>i. mk_slice (Some 0) (Some (int (shape (data c) ! i))) None) [0..<axis]
                  @ [mk_slice (Some (max 0 a)) (Some (min b (int (shape (data c) ! axis)))) None])
                 = Inr w'"
  shows "\<exists>c'. reduce_dim wcs_slice c axis (mk_slice (Some a) (Some b) None) = Inr c' \<and>
              shape (data c')
                = (shape (data c))[axis := nat (min b (int (shape (data c) ! axis)) - max 0 a)] \<and>
              (min b (int (shape (data c) ! axis)) \<le> max 0 a \<longrightarrow> flat (data c') = []) \<and>
              axes_wcs c' = w'"
proof -
  let ?n = "shape (data c) ! axis"
  let ?lo = "max 0 a"
  let ?hi = "min b (int ?n)"
  let ?idx = "map (\<lambda>k. ?lo + int k) [0..<nat (?hi - ?lo)]"
  have lo: "0 \<le> ?lo" by simp
  have hi: "?hi \<le> int ?n" by simp
  obtain d where d: "np_take (data c) ?idx axis = Inr d"
      "shape d = (shape (data c))[axis := nat (?hi - ?lo)]"
      "?hi \<le> ?lo \<longrightarrow> flat d = []"
    using np_take_range [OF ax lo hi] by blast
  have u: "\<exists>u'. (case uncertainty c of None \<Rightarrow> Inr None
                 | Some errors \<Rightarrow> (case np_take errors ?idx axis of Inl e \<Rightarrow> Inl e
                                   | Inr errors' \<Rightarrow> Inr (Some errors'))) = Inr u'"
  proof (cases "uncertainty c")
    case None
    then show ?thesis by simp
  next
    case (Some errors)
    then have sh: "shape errors = shape (data c)" using ss by (simp add: same_shapes_def)
    have 1: "axis < length (shape errors)" using ax sh by simp
    have 2: "?hi \<le> int (shape errors ! axis)" using sh by simp
    from np_take_range [OF 1 lo 2] Some show ?thesis by auto
  qed
  have m: "\<exists>m'. (case mask c of None \<Rightarrow> Inr None
                 | Some m \<Rightarrow> (case np_take m ?idx axis of Inl e \<Rightarrow> Inl e
                                   | Inr m' \<Rightarrow> Inr (Some m'))) = Inr m'"
  proof (cases "mask c")
    case None
    then show ?thesis by simp
  next
    case (Some mk)
    then have sh: "shape mk = shape (data c)" using ss by (simp add: same_shapes_def)
    have 1: "axis < length (shape mk)" using ax sh by simp
    have 2: "?hi \<le> int (shape mk ! axis)" using sh by simp
    from np_take_range [OF 1 lo 2] Some show ?thesis by auto
  qed
  from u obtain u' where u': "(case uncertainty c of None \<Rightarrow> Inr None
                 | Some errors \<Rightarrow> (case np_take errors ?idx axis of Inl e \<Rightarrow> Inl e
                                   | Inr errors' \<Rightarrow> Inr (Some errors'))) = Inr u'" by blast
  from m obtain m' where m': "(case mask c of None \<Rightarrow> Inr None
                 | Some m \<Rightarrow> (case np_take m ?idx axis of Inl e \<Rightarrow> Inl e
                                   | Inr m' \<Rightarrow> Inr (Some m'))) = Inr m'" by blast
  have "reduce_dim wcs_slice c axis (mk_slice (Some a) (Some b) None) =
          Inr \<lparr>data = d, axes_wcs = w', mask = m', uncertainty = u',
               meta = meta c, unit = unit c\<rparr>"
    by (simp only: reduce_dim_unfold [OF ax] d(1) ws u' m' sum.case)
  then show ?thesis using d(2) d(3) by simp
qed

text \<open>
  C10. \<open>reduce_dim\<close> raises a negative start to 0 and lowers a stop above the extent of
  the axis to the extent, and changes no other bound: the coordinate system is sliced with
  \<open>slice(max(0, start), min(stop, extent))\<close> and the result has
  \<open>min(stop, extent) - max(0, start)\<close> positions along the axis, or none when that is
  negative. A negative stop is not above the extent, so it is passed on as it is: for every
  cube, every axis of the cube and every negative stop, such as \<open>slice(0, s)\<close> with
  \<open>s < 0\<close>, the result has the extent 0 along the axis and no data. Nothing is counted
  from the end of the axis.
\<close>

theorem C10_negative_stop_selects_nothing:
  assumes "axis < length (shape (data c))"
      and "same_shapes c"
      and "wcs_slice (axes_wcs c)
             (map (\<lambda>i. mk_slice (Some 0) (Some (int (shape (data c) ! i))) None) [0..<axis]
              @ [mk_slice (Some (max 0 a)) (Some (min b (int (shape (data c) ! axis)))) None])
             = Inr w'"
  shows "\<exists>c'. reduce_dim wcs_slice c axis (mk_slice (Some a) (Some b) None) = Inr c' \<and>
              shape (data c')
                = (shape (data c))[axis := nat (min b (int (shape (data c) ! axis)) - max 0 a)] \<and>
              axes_wcs c' = w' \<and>
              (b < 0 \<longrightarrow> min b (int (shape (data c) ! axis)) = b \<and>
                         shape (data c') ! axis = 0 \<and> flat (data c') = [])"
proof -
  obtain c' where c':
      "reduce_dim wcs_slice c axis (mk_slice (Some a) (Some b) None) = Inr c'"
      "shape (data c')
         = (shape (data c))[axis := nat (min b (int (shape (data c) ! axis)) - max 0 a)]"
      "min b (int (shape (data c) ! axis)) \<le> max 0 a \<longrightarrow> flat (data c') = []"
      "axes_wcs c' = w'"
    using reduce_dim_clamps [where wcs_slice = wcs_slice and c = c and axis = axis
            and a = a and b = b and w' = w'] assms
    by blast
  have "b < 0 \<longrightarrow> min b (int (shape (data c) ! axis)) = b \<and>
                  shape (data c') ! axis = 0 \<and> flat (data c') = []"
  proof
    assume neg: "b < 0"
    have 1: "min b (int (shape (data c) ! axis)) = b" using neg by simp
    have 2: "min b (int (shape (data c) ! axis)) \<le> max 0 a" using neg by simp
    have 3: "nat (min b (int (shape (data c) ! axis)) - max 0 a) = 0" using neg by simp
    have 4: "shape (data c') ! axis = 0" using c'(2) 3 assms(1) by simp
    from 1 2 4 c'(3) show "min b (int (shape (data c) ! axis)) = b \<and>
                  shape (data c') ! axis = 0 \<and> flat (data c') = []" by blast
  qed
  with c'(1) c'(2) c'(4) show ?thesis by blast
qed

theorem C10_witness:
  "0 < length (shape (data wave_first_cube)) \<and>
   same_shapes wave_first_cube \<and>
   keep_wcs (axes_wcs wave_first_cube)
     (map (\<lambda>i. mk_slice (Some 0) (Some (int (shape (data wave_first_cube) ! i))) None) [0..<0]
      @ [mk_slice (Some (max 0 0))
           (Some (min (- 2) (int (shape (data wave_first_cube) ! 0)))) None])
     = Inr wave_first_wcs \<and>
   (- 2 :: int) < 0 \<and>
   (\<exists>c'. reduce_dim keep_wcs wave_first_cube 0 (mk_slice (Some 0) (Some (- 2)) None) = Inr c' \<and>
         shape (data c') ! 0 = 0 \<and>
         flat (data c') = [] \<and>
         axes_wcs c' = wave_first_wcs)"
proof -
  have 1: "0 < length (shape (data wave_first_cube))" by (simp add: wave_first_cube_def)
  have 2: "same_shapes wave_first_cube" by (simp add: same_shapes_def wave_first_cube_def)
  have 3: "keep_wcs (axes_wcs wave_first_cube)
     (map (\<lambda>i. mk_slice (Some 0) (Some (int (shape (data wave_first_cube) ! i))) None) [0..<0]
      @ [mk_slice (Some (max 0 0))
           (Some (min (- 2) (int (shape (data wave_first_cube) ! 0)))) None])
     = Inr wave_first_wcs"
    by (simp add: keep_wcs_def wave_first_cube_def)
  have 4: "(- 2 :: int) < 0" by simp
  from C10_negative_stop_selects_nothing [where wcs_slice = keep_wcs and c = wave_first_cube
         and a = 0 and b = "- 2" and axis = 0 and w' = wave_first_wcs] 1 2 3 4
  have 5: "\<exists>c'. reduce_dim keep_wcs wave_first_cube 0 (mk_slice (Some 0) (Some (- 2)) None) = Inr c' \<and>
         shape (data c') ! 0 = 0 \<and>
         flat (data c') = [] \<and>
         axes_wcs c' = wave_first_wcs" by blast
  from 1 2 3 4 5 show ?thesis by blast
qed

section \<open>Properties of the classification of an index\<close>

lemma getitem_3d_int_slice_slice:
  assumes ct: "ctype (axes_wcs c) = [''WAVE'', ''HPLT-TAN'', ''HPLN-TAN'']"
      and rk: "length (shape (data c)) = 3"
      and ss: "same_shapes c"
      and ws: "\<forall>w sl. \<exists>w'. wcs_slice w sl = Inr w'"
  shows "\<exists>rc. getitem_3d wcs_slice c (Tuple [CInt i, CSlice full_slice, CSlice full_slice])
                 = Inr (Slice_to_map rc [Pos (Some (CInt i))]) \<and>
              shape (data rc) = shape (data c)"
proof -
  have a0: "0 < length (shape (data c))" using rk by simp
  obtain c0 where c0: "reduce_dim wcs_slice c 0 full_slice = Inr c0"
      "shape (data c0) = shape (data c)" "same_shapes c0"
    using reduce_dim_full [OF a0 ss ws] by blast
  have a1: "1 < length (shape (data c0))" using rk c0(2) by simp
  obtain c1 where c1: "reduce_dim wcs_slice c0 1 full_slice = Inr c1"
      "shape (data c1) = shape (data c0)" "same_shapes c1"
    using reduce_dim_full [OF a1 c0(3) ws] by blast
  have a2: "2 < length (shape (data c1))" using rk c0(2) c1(2) by simp
  obtain c2 where c2: "reduce_dim wcs_slice c1 2 full_slice = Inr c2"
      "shape (data c2) = shape (data c1)" "same_shapes c2"
    using reduce_dim_full [OF a2 c1(3) ws] by blast
  have rs: "reduce_slices wcs_slice c0 0 [CInt i, CSlice full_slice, CSlice full_slice] = Inr c2"
    using c1(1) c2(1) by (simp add: numeral_2_eq_2)
  have nd: "ndim (data c2) = 3" using rk c0(2) c1(2) c2(2) by (simp add: ndim_def)
  have hm: "handle_slice_to_map c2 (Tuple [CInt i, CSlice full_slice, CSlice full_slice])
              = Inr (Slice_to_map c2 [Pos (Some (CInt i))])"
    by (simp add: handle_slice_to_map_def nd call_def pos_arg_def py_index_def)
  have "getitem_3d wcs_slice c (Tuple [CInt i, CSlice full_slice, CSlice full_slice])
          = Inr (Slice_to_map c2 [Pos (Some (CInt i))])"
    unfolding getitem_3d_def
    by (simp add: ct py_index_def c0(1) [unfolded full_slice_def] rs slice_to_map_3d_def hm
          del: reduce_slices.simps)
  then show ?thesis using c0(2) c1(2) c2(2) by simp
qed

lemma handle_slice_to_spectrum_int_slice_slice:
  "ndim (data rc) = 3 \<Longrightarrow>
   handle_slice_to_spectrum rc (Tuple [CInt i, CSlice s1, CSlice s2])
     = Inr (Slice_to_spectrum rc [Pos (Some (CInt i)), Pos None])"
  by (simp add: handle_slice_to_spectrum_def call_def pos_arg_def py_index_def)

text \<open>
  C1, as amended. For a rank-3 cube whose axis types are WAVE, HPLT-TAN, HPLN-TAN, the
  index \<open>(i, slice(None), slice(None))\<close> is classified as map-producing and not as
  spectrum-producing, because the axis type at position 1 is not WAVE: \<open>getitem_3d\<close>
  returns the call \<open>slice_to_map(item[0])\<close> on the reduced cube, which has the shape of
  the cube. \<open>handle_slice_to_spectrum\<close> is not invoked; given this index and the
  reduced cube it passes the positions \<open>(item[0], None)\<close>.
\<close>

theorem C1_int_slice_slice_is_map:
  assumes "ctype (axes_wcs c) = [''WAVE'', ''HPLT-TAN'', ''HPLN-TAN'']"
      and "length (shape (data c)) = 3"
      and "same_shapes c"
      and "\<forall>w sl. \<exists>w'. wcs_slice w sl = Inr w'"
  shows "slice_to_map_3d ''HPLT-TAN'' (Tuple [CInt i, CSlice full_slice, CSlice full_slice]) \<and>
         \<not> slice_to_spectrum_3d ''WAVE'' ''HPLT-TAN''
             (Tuple [CInt i, CSlice full_slice, CSlice full_slice]) \<and>
         (\<exists>rc. getitem_3d wcs_slice c (Tuple [CInt i, CSlice full_slice, CSlice full_slice])
                  = Inr (Slice_to_map rc [Pos (Some (CInt i))]) \<and>
               shape (data rc) = shape (data c) \<and>
               handle_slice_to_spectrum rc (Tuple [CInt i, CSlice full_slice, CSlice full_slice])
                  = Inr (Slice_to_spectrum rc [Pos (Some (CInt i)), Pos None]))"
proof -
  obtain rc where rc:
      "getitem_3d wcs_slice c (Tuple [CInt i, CSlice full_slice, CSlice full_slice])
         = Inr (Slice_to_map rc [Pos (Some (CInt i))])"
      "shape (data rc) = shape (data c)"
    using getitem_3d_int_slice_slice [where wcs_slice = wcs_slice and c = c and i = i] assms
    by blast
  have nd: "ndim (data rc) = 3" using rc(2) assms(2) by (simp add: ndim_def)
  have m: "slice_to_map_3d ''HPLT-TAN'' (Tuple [CInt i, CSlice full_slice, CSlice full_slice])"
    by (simp add: slice_to_map_3d_def)
  have s: "\<not> slice_to_spectrum_3d ''WAVE'' ''HPLT-TAN''
               (Tuple [CInt i, CSlice full_slice, CSlice full_slice])"
    by (simp add: slice_to_spectrum_3d_def)
  from m s rc handle_slice_to_spectrum_int_slice_slice [OF nd] show ?thesis by blast
qed

theorem C1_witness:
  "ctype (axes_wcs wave_first_cube) = [''WAVE'', ''HPLT-TAN'', ''HPLN-TAN''] \<and>
   length (shape (data wave_first_cube)) = 3 \<and>
   same_shapes wave_first_cube \<and>
   (\<forall>w sl. \<exists>w'. keep_wcs w sl = Inr w') \<and>
   (\<exists>rc. getitem_3d keep_wcs wave_first_cube
            (Tuple [CInt 5, CSlice full_slice, CSlice full_slice])
            = Inr (Slice_to_map rc [Pos (Some (CInt 5))]))"
proof -
  have 1: "ctype (axes_wcs wave_first_cube) = [''WAVE'', ''HPLT-TAN'', ''HPLN-TAN'']"
    by (simp add: wave_first_cube_def wave_first_wcs_def)
  have 2: "length (shape (data wave_first_cube)) = 3" by (simp add: wave_first_cube_def)
  have 3: "same_shapes wave_first_cube" by (simp add: same_shapes_def wave_first_cube_def)
  have 4: "\<forall>w sl. \<exists>w'. keep_wcs w sl = Inr w'" by (simp add: keep_wcs_def)
  from C1_int_slice_slice_is_map [where wcs_slice = keep_wcs and c = wave_first_cube
         and i = 5] 1 2 3 4
  have "\<exists>rc. getitem_3d keep_wcs wave_first_cube
            (Tuple [CInt 5, CSlice full_slice, CSlice full_slice])
            = Inr (Slice_to_map rc [Pos (Some (CInt 5))])" by blast
  with 1 2 3 4 show ?thesis by (intro conjI)
qed

text \<open>
  C1 as stated fails on the cube of shape \<open>(6, 1, 1)\<close> with these axis types: the index
  \<open>(5, slice(None), slice(None))\<close> is not classified as spectrum-producing, and the
  result of \<open>getitem_3d\<close> is the call of \<open>slice_to_map\<close>, not of \<open>slice_to_spectrum\<close>.
\<close>

theorem C1_counterexample:
  "ctype (axes_wcs wave_first_cube) = [''WAVE'', ''HPLT-TAN'', ''HPLN-TAN''] \<and>
   ndim (data wave_first_cube) = 3 \<and>
   \<not> slice_to_spectrum_3d ''WAVE'' ''HPLT-TAN''
       (Tuple [CInt 5, CSlice full_slice, CSlice full_slice]) \<and>
   getitem_3d keep_wcs wave_first_cube (Tuple [CInt 5, CSlice full_slice, CSlice full_slice])
     = Inr (Slice_to_map wave_first_cube [Pos (Some (CInt 5))])"
proof -
  have 1: "ctype (axes_wcs wave_first_cube) = [''WAVE'', ''HPLT-TAN'', ''HPLN-TAN'']"
    by (simp add: wave_first_cube_def wave_first_wcs_def)
  have 2: "ndim (data wave_first_cube) = 3" by (simp add: wave_first_cube_def ndim_def)
  have 3: "\<not> slice_to_spectrum_3d ''WAVE'' ''HPLT-TAN''
       (Tuple [CInt 5, CSlice full_slice, CSlice full_slice])"
    by (simp add: slice_to_spectrum_3d_def)
  have 4: "getitem_3d keep_wcs wave_first_cube
             (Tuple [CInt 5, CSlice full_slice, CSlice full_slice])
             = Inr (Slice_to_map wave_first_cube [Pos (Some (CInt 5))])"
    by code_simp
  from 1 2 3 4 show ?thesis by (intro conjI)
qed

section \<open>Properties of the orientation\<close>

text \<open>
  C9. \<open>orient\<close> is idempotent: whenever \<open>orient\<close> accepts an array, a coordinate system
  and auxiliary arrays and returns a result, \<open>orient\<close> applied to that result returns
  exactly that result. The coordinate system of the first result is flagged as oriented, so
  the second call returns its arguments at the first test.
\<close>

theorem C9_orient_idempotent:
  assumes "orient reindex_wcs a w ex = Inr (a', w', ex')"
  shows "oriented w' \<and> orient reindex_wcs a' w' ex' = Inr (a', w', ex')"
proof -
  have "oriented w'"
    using assms unfolding orient_def
    by (auto split: if_splits sum.splits)
  then show ?thesis by (simp add: orient_def)
qed

theorem C9_witness:
  "orient reindex_axes small_array space_first_wcs []
     = Inr (\<lparr>shape = [2, 1, 1], flat = [7, 9 :: rat]\<rparr>,
            \<lparr>ctype = [''WAVE'', ''HPLT-TAN'', ''HPLN-TAN''],
             crpix = [0, 0, 0], crval = [0, 0, 0], cdelt = [1, 1, 1],
             cunit = [Unit ''length'' 1, deg, deg],
             oriented = True, was_augmented = False\<rparr>, []) \<and>
   orient reindex_axes \<lparr>shape = [2, 1, 1], flat = [7, 9 :: rat]\<rparr>
       \<lparr>ctype = [''WAVE'', ''HPLT-TAN'', ''HPLN-TAN''],
        crpix = [0, 0, 0], crval = [0, 0, 0], cdelt = [1, 1, 1],
        cunit = [Unit ''length'' 1, deg, deg],
        oriented = True, was_augmented = False\<rparr> []
     = Inr (\<lparr>shape = [2, 1, 1], flat = [7, 9 :: rat]\<rparr>,
            \<lparr>ctype = [''WAVE'', ''HPLT-TAN'', ''HPLN-TAN''],
             crpix = [0, 0, 0], crval = [0, 0, 0], cdelt = [1, 1, 1],
             cunit = [Unit ''length'' 1, deg, deg],
             oriented = True, was_augmented = False\<rparr>, [])"
proof -
  have 1: "orient reindex_axes small_array space_first_wcs []
     = Inr (\<lparr>shape = [2, 1, 1], flat = [7, 9 :: rat]\<rparr>,
            \<lparr>ctype = [''WAVE'', ''HPLT-TAN'', ''HPLN-TAN''],
             crpix = [0, 0, 0], crval = [0, 0, 0], cdelt = [1, 1, 1],
             cunit = [Unit ''length'' 1, deg, deg],
             oriented = True, was_augmented = False\<rparr>, [])"
    by code_simp
  from 1 C9_orient_idempotent [OF 1] show ?thesis by blast
qed

section \<open>Properties of the unit conversion\<close>

text \<open>
  C8. A slice whose start is a quantity in degrees and whose stop is a quantity in
  arcseconds, converted to pixels on any axis of any coordinate system, raises CubeError
  with the code 5, the slicing-unit error, although degrees convert to arcseconds.
\<close>

theorem C8_degrees_and_arcseconds_raise_code_5:
  "convert_slice \<lparr>ustart = SQuantity a deg, ustop = SQuantity b arcsec, ustep = st\<rparr>
       w axis source
     = Inl (CubeError 5 ''Only one unit per axis may be given'') \<and>
   map_of CubeError_errors 5 = Some ''Slicing unit error'' \<and>
   convertible deg arcsec"
  by (simp add: convert_slice_def deg_def arcsec_def convertible_def CubeError_errors_def)

section \<open>Properties of the validation failures\<close>

lemma orient_rank_check:
  "\<not> oriented w \<Longrightarrow> ndim a \<noteq> 3 \<Longrightarrow> ndim a \<noteq> 4 \<Longrightarrow>
   orient reindex_wcs a w ex = Inl (ValueError ''Input array must be 3- or 4-dimensional'')"
  by (simp add: orient_def)

lemma orient_dimension_check:
  "\<not> oriented w \<Longrightarrow> ndim a = 3 \<or> ndim a = 4 \<Longrightarrow>
   \<not> ((naxis_of w = 3 \<and> ndim a = 3) \<or>
       (naxis_of w = 4 \<and> ndim a = 4 \<and> \<not> was_augmented w) \<or>
       (naxis_of w = 4 \<and> ndim a = 3 \<and> was_augmented w)) \<Longrightarrow>
   orient reindex_wcs a w ex
     = Inl (ValueError ''WCS must have the same dimensions as the array'')"
  by (auto simp: orient_def)

lemma sequence_int_check:
  "collect (map (\<lambda>c. py_index (shape (data c)) (common_axis cs)) (seq_data cs)) = Inr lens \<Longrightarrow>
   common_axis cs \<noteq> 0 \<Longrightarrow>
   index_sequence_as_cube seq_getitem cs (Single (CInt i))
     = Inl (ValueError (int_index_message @ py_str (common_axis cs)))"
  by (simp add: index_sequence_as_cube_def locate_common_axis_def)

lemma sequence_slice_check:
  "collect (map (\<lambda>c. py_index (shape (data c)) (common_axis cs)) (seq_data cs)) = Inr lens \<Longrightarrow>
   common_axis cs \<noteq> 0 \<Longrightarrow>
   index_sequence_as_cube seq_getitem cs (Single (CSlice s))
     = Inl (ValueError (single_slice_message @ py_str (common_axis cs)))"
  by (simp add: index_sequence_as_cube_def locate_common_axis_def)

lemma sequence_other_check:
  "collect (map (\<lambda>c. py_index (shape (data c)) (common_axis cs)) (seq_data cs)) = Inr lens \<Longrightarrow>
   py_index comps (common_axis cs) = Inr COther \<Longrightarrow>
   index_sequence_as_cube seq_getitem cs (Tuple comps)
     = Inl (ValueError ''Invalid index/slice input.'')"
  by (simp add: index_sequence_as_cube_def locate_common_axis_def)

lemma slice_unit_check:
  "u1 \<noteq> u2 \<Longrightarrow>
   convert_slice \<lparr>ustart = SQuantity x u1, ustop = SQuantity y u2, ustep = st\<rparr> w axis source
     = Inl (CubeError 5 ''Only one unit per axis may be given'')"
  by (simp add: convert_slice_def)

lemma scan_steps_error:
  "scan_steps xs un = Inl e \<Longrightarrow> e = CubeError 5 ''Only one unit per axis may be given''"
  by (induction xs un rule: scan_steps.induct) (auto split: if_splits sum.splits)

lemma py_index_error: "py_index xs i = Inl e \<Longrightarrow> e = IndexError"
  by (auto simp: py_index_def split: if_splits)

lemma to_unit_error: "to_unit v u c = Inl e \<Longrightarrow> e = UnitConversionError"
  by (auto simp: to_unit_def split: if_splits)

lemma round_quotient_error: "round_quotient a b c = Inl e \<Longrightarrow> error_code e = None"
  by (auto simp: round_quotient_def split: if_splits)

lemma convert_point_error:
  "convert_point v un w axis source = Inl e \<Longrightarrow> error_code e = None"
  unfolding convert_point_def
  by (auto split: option.splits if_splits sum.splits
      dest!: py_index_error to_unit_error round_quotient_error)

lemma convert_slice_error:
  "convert_slice it w axis source = Inl e \<Longrightarrow> error_code e = None \<or> error_code e = Some 5"
  unfolding convert_slice_def
  by (auto split: option.splits if_splits sum.splits prod.splits
      dest!: py_index_error to_unit_error round_quotient_error convert_point_error
             scan_steps_error)

lemma np_transpose_error: "np_transpose a p = Inl e \<Longrightarrow> error_code e = None"
  by (auto simp: np_transpose_def Let_def split: if_splits)

lemma collect_map_error: "collect (map f xs) = Inl e \<Longrightarrow> \<exists>x\<in>set xs. f x = Inl e"
  by (induction xs) (auto split: sum.splits)

lemma select_order_no_error: "select_order xs \<noteq> Inl e"
  by (simp add: select_order_eq)

lemma orient_error:
  assumes r: "\<forall>w' order e'. reindex_wcs w' order = Inl e' \<longrightarrow> error_code e' = None"
      and f: "orient reindex_wcs a w ex = Inl e"
  shows "error_code e = None"
proof -
  have t: "\<And>p. collect (map (\<lambda>arr. np_transpose arr p) ex) = Inl e \<Longrightarrow> error_code e = None"
  proof -
    fix p assume "collect (map (\<lambda>arr. np_transpose arr p) ex) = Inl e"
    then have "\<exists>arr\<in>set ex. np_transpose arr p = Inl e" by (rule collect_map_error)
    then show "error_code e = None" by (auto dest: np_transpose_error)
  qed
  show ?thesis
    using f r unfolding orient_def
    by (auto split: if_splits sum.splits
        simp: select_order_no_error dest: np_transpose_error t)
qed

lemma index_conversion_error:
  "convert_cube_like_index_to_sequence_indices i cumul = Inl e \<Longrightarrow> e = IndexError"
  unfolding convert_cube_like_index_to_sequence_indices_def
  by (auto split: sum.splits if_splits dest!: py_index_error)

lemma slice_conversion_error:
  "convert_cube_like_slice_to_sequence_slices s cumul = Inl e \<Longrightarrow> e = IndexError"
  unfolding convert_cube_like_slice_to_sequence_slices_def
  by (auto split: sum.splits if_splits option.splits prod.splits
      dest!: py_index_error index_conversion_error)

lemma locate_common_axis_error:
  "locate_common_axis axis cumul it = Inl e \<Longrightarrow> error_code e = None"
  unfolding locate_common_axis_def
  by (auto split: item.splits comp.splits sum.splits if_splits prod.splits
      dest!: py_index_error index_conversion_error slice_conversion_error)

lemma py_update_error: "py_update xs i v = Inl e \<Longrightarrow> e = IndexError"
  by (auto simp: py_update_def split: if_splits)

lemma index_sequence_as_cube_error:
  assumes g: "\<forall>cs' it' e'. seq_getitem cs' it' = Inl e' \<longrightarrow> error_code e' = None"
      and f: "index_sequence_as_cube seq_getitem cs it = Inl e"
  shows "error_code e = None"
proof -
  have c: "\<And>e'. collect (map (\<lambda>c. py_index (shape (data c)) (common_axis cs)) (seq_data cs))
                   = Inl e' \<Longrightarrow> error_code e' = None"
  proof -
    fix e' assume "collect (map (\<lambda>c. py_index (shape (data c)) (common_axis cs)) (seq_data cs))
                   = Inl e'"
    then have "\<exists>c\<in>set (seq_data cs). py_index (shape (data c)) (common_axis cs) = Inl e'"
      by (rule collect_map_error)
    then show "error_code e' = None" by (auto dest: py_index_error)
  qed
  show ?thesis
    using f g unfolding index_sequence_as_cube_def
    by (auto split: sum.splits prod.splits
        dest: c locate_common_axis_error dest!: py_update_error)
qed

text \<open>
  C4, as amended. Every validation failure of the core is the result of the call, raised
  at once, with no retry and no partial result, and its kind depends on the check. The
  orient rank and dimension checks and the input checks of \<open>index_sequence_as_cube\<close>
  raise the built-in ValueError, which carries no numeric code. The slicing-unit check of
  \<open>_convert_slice\<close> raises CubeError with the code 5, and no failure of
  \<open>_convert_slice\<close> carries another code. No failure of \<open>orient\<close> or of
  \<open>index_sequence_as_cube\<close> carries a code, unless the reindexing or the indexing of the
  sequence that they call raises one.
\<close>

theorem C4_validation_failures_by_kind:
  "(\<not> oriented w1 \<and> ndim a1 \<noteq> 3 \<and> ndim a1 \<noteq> 4 \<longrightarrow>
      orient reindex_wcs a1 w1 ex1
        = Inl (ValueError ''Input array must be 3- or 4-dimensional'')) \<and>
   (\<not> oriented w2 \<and> (ndim a2 = 3 \<or> ndim a2 = 4) \<and>
    \<not> ((naxis_of w2 = 3 \<and> ndim a2 = 3) \<or>
        (naxis_of w2 = 4 \<and> ndim a2 = 4 \<and> \<not> was_augmented w2) \<or>
        (naxis_of w2 = 4 \<and> ndim a2 = 3 \<and> was_augmented w2)) \<longrightarrow>
      orient reindex_wcs a2 w2 ex2
        = Inl (ValueError ''WCS must have the same dimensions as the array'')) \<and>
   (collect (map (\<lambda>c. py_index (shape (data c)) (common_axis cs)) (seq_data cs)) = Inr lens \<and>
    common_axis cs \<noteq> 0 \<longrightarrow>
      index_sequence_as_cube seq_getitem cs (Single (CInt i))
        = Inl (ValueError (int_index_message @ py_str (common_axis cs))) \<and>
      index_sequence_as_cube seq_getitem cs (Single (CSlice s))
        = Inl (ValueError (single_slice_message @ py_str (common_axis cs)))) \<and>
   (collect (map (\<lambda>c. py_index (shape (data c)) (common_axis cs)) (seq_data cs)) = Inr lens \<and>
    py_index comps (common_axis cs) = Inr COther \<longrightarrow>
      index_sequence_as_cube seq_getitem cs (Tuple comps)
        = Inl (ValueError ''Invalid index/slice input.'')) \<and>
   (u1 \<noteq> u2 \<longrightarrow>
      convert_slice \<lparr>ustart = SQuantity x u1, ustop = SQuantity y u2, ustep = st\<rparr>
          w3 axis source
        = Inl (CubeError 5 ''Only one unit per axis may be given'')) \<and>
   (convert_slice it3 w3 axis source = Inl e3 \<longrightarrow>
      error_code e3 = None \<or> error_code e3 = Some 5) \<and>
   ((\<forall>w' order e'. reindex_wcs w' order = Inl e' \<longrightarrow> error_code e' = None) \<and>
    orient reindex_wcs a4 w4 ex4 = Inl e4 \<longrightarrow> error_code e4 = None) \<and>
   ((\<forall>cs' it' e'. seq_getitem cs' it' = Inl e' \<longrightarrow> error_code e' = None) \<and>
    index_sequence_as_cube seq_getitem cs5 it5 = Inl e5 \<longrightarrow> error_code e5 = None)"
proof (intro conjI impI)
  assume "\<not> oriented w1 \<and> ndim a1 \<noteq> 3 \<and> ndim a1 \<noteq> 4"
  then show "orient reindex_wcs a1 w1 ex1
               = Inl (ValueError ''Input array must be 3- or 4-dimensional'')"
    by (simp add: orient_rank_check)
next
  assume "\<not> oriented w2 \<and> (ndim a2 = 3 \<or> ndim a2 = 4) \<and>
    \<not> ((naxis_of w2 = 3 \<and> ndim a2 = 3) \<or>
        (naxis_of w2 = 4 \<and> ndim a2 = 4 \<and> \<not> was_augmented w2) \<or>
        (naxis_of w2 = 4 \<and> ndim a2 = 3 \<and> was_augmented w2))"
  then show "orient reindex_wcs a2 w2 ex2
               = Inl (ValueError ''WCS must have the same dimensions as the array'')"
    using orient_dimension_check [of w2 a2 reindex_wcs ex2] by blast
next
  assume "collect (map (\<lambda>c. py_index (shape (data c)) (common_axis cs)) (seq_data cs)) = Inr lens
            \<and> common_axis cs \<noteq> 0"
  then show "index_sequence_as_cube seq_getitem cs (Single (CInt i))
               = Inl (ValueError (int_index_message @ py_str (common_axis cs)))"
    by (simp add: sequence_int_check)
next
  assume "collect (map (\<lambda>c. py_index (shape (data c)) (common_axis cs)) (seq_data cs)) = Inr lens
            \<and> common_axis cs \<noteq> 0"
  then show "index_sequence_as_cube seq_getitem cs (Single (CSlice s))
               = Inl (ValueError (single_slice_message @ py_str (common_axis cs)))"
    by (simp add: sequence_slice_check)
next
  assume "collect (map (\<lambda>c. py_index (shape (data c)) (common_axis cs)) (seq_data cs)) = Inr lens
            \<and> py_index comps (common_axis cs) = Inr COther"
  then show "index_sequence_as_cube seq_getitem cs (Tuple comps)
               = Inl (ValueError ''Invalid index/slice input.'')"
    by (simp add: sequence_other_check)
next
  assume "u1 \<noteq> u2"
  then show "convert_slice \<lparr>ustart = SQuantity x u1, ustop = SQuantity y u2, ustep = st\<rparr>
                 w3 axis source
               = Inl (CubeError 5 ''Only one unit per axis may be given'')"
    by (rule slice_unit_check)
next
  assume "convert_slice it3 w3 axis source = Inl e3"
  then show "error_code e3 = None \<or> error_code e3 = Some 5"
    by (rule convert_slice_error)
next
  assume "(\<forall>w' order e'. reindex_wcs w' order = Inl e' \<longrightarrow> error_code e' = None) \<and>
          orient reindex_wcs a4 w4 ex4 = Inl e4"
  then show "error_code e4 = None"
    using orient_error [of reindex_wcs a4 w4 ex4 e4] by blast
next
  assume "(\<forall>cs' it' e'. seq_getitem cs' it' = Inl e' \<longrightarrow> error_code e' = None) \<and>
          index_sequence_as_cube seq_getitem cs5 it5 = Inl e5"
  then show "error_code e5 = None"
    using index_sequence_as_cube_error [of seq_getitem cs5 it5 e5] by blast
qed

theorem C4_witness:
  "(\<not> oriented space_first_wcs \<and> ndim rank2_array \<noteq> 3 \<and> ndim rank2_array \<noteq> 4) \<and>
   orient reindex_axes rank2_array space_first_wcs []
     = Inl (ValueError ''Input array must be 3- or 4-dimensional'') \<and>
   (\<not> oriented four_axis_wcs \<and> (ndim small_array = 3 \<or> ndim small_array = 4) \<and>
    \<not> ((naxis_of four_axis_wcs = 3 \<and> ndim small_array = 3) \<or>
        (naxis_of four_axis_wcs = 4 \<and> ndim small_array = 4 \<and> \<not> was_augmented four_axis_wcs) \<or>
        (naxis_of four_axis_wcs = 4 \<and> ndim small_array = 3 \<and> was_augmented four_axis_wcs))) \<and>
   orient reindex_axes small_array four_axis_wcs []
     = Inl (ValueError ''WCS must have the same dimensions as the array'') \<and>
   (collect (map (\<lambda>c. py_index (shape (data c)) (common_axis (three_cubes 1)))
              (seq_data (three_cubes 1))) = Inr [1, 1, 1] \<and>
    common_axis (three_cubes 1) \<noteq> 0) \<and>
   index_sequence_as_cube echo_index (three_cubes 1) (Single (CInt 4))
     = Inl (ValueError (int_index_message @ ''1'')) \<and>
   index_sequence_as_cube echo_index (three_cubes 1) (Single (CSlice full_slice))
     = Inl (ValueError (single_slice_message @ ''1'')) \<and>
   py_index [CInt 0, COther] (common_axis (three_cubes 1)) = Inr COther \<and>
   index_sequence_as_cube echo_index (three_cubes 1) (Tuple [CInt 0, COther])
     = Inl (ValueError ''Invalid index/slice input.'') \<and>
   deg \<noteq> arcsec \<and>
   convert_slice deg_to_arcsec_slice space_first_wcs 0 ''cube''
     = Inl (CubeError 5 ''Only one unit per axis may be given'') \<and>
   error_code (CubeError 5 ''Only one unit per axis may be given'') = Some 5 \<and>
   error_code (ValueError ''Input array must be 3- or 4-dimensional'') = None \<and>
   error_code (ValueError (int_index_message @ ''1'')) = None"
proof -
  note T = C4_validation_failures_by_kind
    [where ?w1.0 = space_first_wcs and ?a1.0 = rank2_array and reindex_wcs = reindex_axes
       and ?ex1.0 = "[]"
       and ?w2.0 = four_axis_wcs and ?a2.0 = small_array and ?ex2.0 = "[]"
       and cs = "three_cubes 1" and lens = "[1, 1, 1]" and seq_getitem = echo_index
       and i = 4 and s = full_slice and comps = "[CInt 0, COther]"
       and ?u1.0 = deg and ?u2.0 = arcsec and x = 1 and y = 2 and st = SNone
       and ?w3.0 = space_first_wcs and axis = 0 and source = "''cube''"
       and ?it3.0 = deg_to_arcsec_slice
       and ?e3.0 = "CubeError 5 ''Only one unit per axis may be given''"
       and ?a4.0 = rank2_array and ?w4.0 = space_first_wcs and ?ex4.0 = "[]"
       and ?e4.0 = "ValueError ''Input array must be 3- or 4-dimensional''"
       and ?cs5.0 = "three_cubes 1" and ?it5.0 = "Single (CInt 4)"
       and ?e5.0 = "ValueError (int_index_message @ ''1'')"]
  have s1: "py_str 1 = ''1''" by (simp add: py_str_def nat_digits.simps digit_char_def)
  have h1: "\<not> oriented space_first_wcs \<and> ndim rank2_array \<noteq> 3 \<and> ndim rank2_array \<noteq> 4"
    by (simp add: space_first_wcs_def rank2_array_def ndim_def)
  have h2: "\<not> oriented four_axis_wcs \<and> (ndim small_array = 3 \<or> ndim small_array = 4) \<and>
    \<not> ((naxis_of four_axis_wcs = 3 \<and> ndim small_array = 3) \<or>
        (naxis_of four_axis_wcs = 4 \<and> ndim small_array = 4 \<and> \<not> was_augmented four_axis_wcs) \<or>
        (naxis_of four_axis_wcs = 4 \<and> ndim small_array = 3 \<and> was_augmented four_axis_wcs))"
    by (simp add: four_axis_wcs_def small_array_def ndim_def naxis_of_def)
  have ca: "common_axis (three_cubes 1) = 1" by (simp add: three_cubes_def)
  have h3: "collect (map (\<lambda>c. py_index (shape (data c)) (common_axis (three_cubes 1)))
              (seq_data (three_cubes 1))) = Inr [1, 1, 1] \<and>
            common_axis (three_cubes 1) \<noteq> 0"
    by (simp add: three_cubes_def wave_first_cube_def py_index_def)
  have h4: "py_index [CInt 0, COther] (common_axis (three_cubes 1)) = Inr COther"
    by (simp add: ca py_index_def)
  have h5: "deg \<noteq> arcsec" by (simp add: deg_def arcsec_def)
  have h7: "\<forall>w' order e'. reindex_axes w' order = Inl e' \<longrightarrow> error_code e' = None"
    by (simp add: reindex_axes_def)
  have h8: "\<forall>cs' it' e'. echo_index cs' it' = Inl e' \<longrightarrow> error_code e' = None"
    by (simp add: echo_index_def)
  from T h1 have c1: "orient reindex_axes rank2_array space_first_wcs []
     = Inl (ValueError ''Input array must be 3- or 4-dimensional'')" by blast
  from T h2 have c2: "orient reindex_axes small_array four_axis_wcs []
     = Inl (ValueError ''WCS must have the same dimensions as the array'')" by blast
  from T h3 have c3: "index_sequence_as_cube echo_index (three_cubes 1) (Single (CInt 4))
     = Inl (ValueError (int_index_message @ ''1''))" by (simp add: ca s1)
  from T h3 have c3': "index_sequence_as_cube echo_index (three_cubes 1) (Single (CSlice full_slice))
     = Inl (ValueError (single_slice_message @ ''1''))" by (simp add: ca s1)
  from T h3 h4 have c4: "index_sequence_as_cube echo_index (three_cubes 1) (Tuple [CInt 0, COther])
     = Inl (ValueError ''Invalid index/slice input.'')" by blast
  from T h5 have c5: "convert_slice deg_to_arcsec_slice space_first_wcs 0 ''cube''
     = Inl (CubeError 5 ''Only one unit per axis may be given'')"
    by (simp add: deg_to_arcsec_slice_def)
  from T c5 have c6: "error_code (CubeError 5 ''Only one unit per axis may be given'') = Some 5"
    by simp
  from T h7 c1 have c7: "error_code (ValueError ''Input array must be 3- or 4-dimensional'') = None"
    by simp
  from T h8 c3 have c8: "error_code (ValueError (int_index_message @ ''1'')) = None"
    by simp
  from h1 c1 h2 c2 h3 c3 c3' h4 c4 h5 c5 c6 c7 c8 show ?thesis by blast
qed

text \<open>
  C4 as stated fails: the rank check of \<open>orient\<close> on an array of rank 2 and the check of
  \<open>index_sequence_as_cube\<close> on an int with the common axis 1 raise ValueError, which
  carries no numeric code.
\<close>

theorem C4_counterexample:
  "orient reindex_axes rank2_array space_first_wcs []
     = Inl (ValueError ''Input array must be 3- or 4-dimensional'') \<and>
   error_code (ValueError ''Input array must be 3- or 4-dimensional'') = None \<and>
   index_sequence_as_cube echo_index (three_cubes 1) (Single (CInt 4))
     = Inl (ValueError (int_index_message @ ''1'')) \<and>
   error_code (ValueError (int_index_message @ ''1'')) = None"
proof -
  have 1: "orient reindex_axes rank2_array space_first_wcs []
     = Inl (ValueError ''Input array must be 3- or 4-dimensional'')"
    by (simp add: orient_def space_first_wcs_def rank2_array_def ndim_def)
  have s1: "py_str 1 = ''1''" by (simp add: py_str_def nat_digits.simps digit_char_def)
  have 2: "index_sequence_as_cube echo_index (three_cubes 1) (Single (CInt 4))
     = Inl (ValueError (int_index_message @ ''1''))"
    by (simp add: index_sequence_as_cube_def locate_common_axis_def three_cubes_def
          wave_first_cube_def py_index_def s1)
  from 1 2 show ?thesis by simp
qed

section \<open>Properties of the augmentation\<close>

lemma py_str_3: "py_str 3 = ''3''"
  by (simp add: py_str_def nat_digits.simps digit_char_def)

lemma next_axis_example: "next_axis lon_wave_header (Some 2) = Inr 3"
  by (simp add: next_axis_def lon_wave_header_def)

text \<open>
  When the header with the synthetic axis is inconsistent, the header that \<open>_augment\<close>
  returns is that header, unchanged, and the expected type goes into the argument.
\<close>

lemma augment_inconsistent:
  assumes "next_axis header naxis = Inr n"
      and "get_axis_types (append_axis header (py_str n)) = Inconsistent unmatched (m # ms)"
  shows "augment get_axis_types header naxis
           = Inr (append_axis header (py_str n),
                  header(''CTYPE'' @ py_str n \<mapsto> HStr (drop 9 m)))"
  using assms by (simp add: augment_def py_index_def)

lemma append_axis_ctype:
  "append_axis h axis (''CTYPE'' @ axis) = Some (HStr ''HPLN-TAN'')"
  by (simp add: append_axis_def)

lemma appended_example:
  "celestial_pairing (append_axis lon_wave_header ''3'')
     = Inconsistent False [''expected HPLT-TAN'']"
  by (simp add: celestial_pairing_def count_ctype_def append_axis_def lon_wave_header_def)

lemma needs_example: "needs_augmenting celestial_init lon_wave_header = Inr True"
  by (simp add: needs_augmenting_def celestial_init_def celestial_pairing_def count_ctype_def
        lon_wave_header_def)

lemma augment_example:
  "augment celestial_pairing lon_wave_header (Some 2)
     = Inr (append_axis lon_wave_header ''3'',
            lon_wave_header(''CTYPE3'' \<mapsto> HStr ''HPLT-TAN''))"
  using augment_inconsistent [of lon_wave_header "Some 2" 3 celestial_pairing False
          "''expected HPLT-TAN''" "[]"]
  by (simp add: next_axis_example py_str_3 appended_example)

text \<open>
  C2, on the header with the axis types HPLN-TAN and WAVE and the axis count 2. The
  header with the synthetic third axis is inconsistent and the library expects HPLT-TAN.
  The header that \<open>_augment\<close> returns still has the type HPLN-TAN on the synthetic axis
  and is still inconsistent; the expected type is written into the argument. The
  constructor then fails on the returned header, so no coordinate system is built.
\<close>

theorem C2_returned_header_keeps_first_tag:
  "(case augment celestial_pairing lon_wave_header (Some 2) of
      Inl e \<Rightarrow> False
    | Inr (newheader, header_after) \<Rightarrow>
        newheader ''CTYPE3'' = Some (HStr ''HPLN-TAN'') \<and>
        celestial_pairing newheader = Inconsistent False [''expected HPLT-TAN''] \<and>
        header_after ''CTYPE3'' = Some (HStr ''HPLT-TAN'')) \<and>
   WCS_init celestial_init celestial_pairing lon_wave_header (Some 2)
     = Inl InconsistentAxisTypesError"
proof -
  have a: "append_axis lon_wave_header ''3'' ''CTYPE3'' = Some (HStr ''HPLN-TAN'')"
    using append_axis_ctype [of lon_wave_header "''3''"] by simp
  have i: "celestial_init (append_axis lon_wave_header ''3'') (Some 3)
             = Inconsistent False [''expected HPLT-TAN'']"
    by (simp add: celestial_init_def appended_example)
  show ?thesis
    by (simp add: augment_example a appended_example WCS_init_def needs_example i)
qed

text \<open>
  C7, on the same header. The argument has no keyword CTYPE3 before the call of
  \<open>_augment\<close> and has it after the call: the augmentation changes its argument.
\<close>

theorem C7_augment_changes_its_argument:
  "lon_wave_header ''CTYPE3'' = None \<and>
   (case augment celestial_pairing lon_wave_header (Some 2) of
      Inl e \<Rightarrow> False
    | Inr (newheader, header_after) \<Rightarrow>
        header_after ''CTYPE3'' = Some (HStr ''HPLT-TAN'') \<and> header_after \<noteq> lon_wave_header)"
proof -
  have n: "lon_wave_header ''CTYPE3'' = None" by (simp add: lon_wave_header_def)
  have "(lon_wave_header(''CTYPE3'' \<mapsto> HStr ''HPLT-TAN'')) ''CTYPE3''
          \<noteq> lon_wave_header ''CTYPE3''"
    using n by simp
  then have d: "lon_wave_header(''CTYPE3'' \<mapsto> HStr ''HPLT-TAN'') \<noteq> lon_wave_header"
    by metis
  show ?thesis using n d by (simp add: augment_example)
qed

end
